theory Spec2Isabelle
  imports Main "HOL-Library.Word" "HOL-Library.Multiset" "HOL-Library.Char_ord"
    "HOL-Library.List_Lexorder"
begin

unbundle bit_operations_syntax

section \<open>The certificate lifecycle of pkg/minikube/bootstrapper/certs.go\<close>

text \<open>
  A shallow embedding of certs.go. Go strings are byte strings (\<open>string\<close>); every function
  that touches the local file system, the clock, the lock or the remote command runner takes
  the world and returns the new one. Logging (\<open>klog\<close>, \<open>out.WarningT\<close>) is left out: it
  changes no value the code reads. Library calls whose body is not part of certs.go
  (\<open>pem.Decode\<close>, \<open>x509.ParseCertificate\<close>, \<open>sha1.Sum\<close>, the certificate generators, the
  command runner, the \<open>localpath\<close> and \<open>vmpath\<close> constants, ...) are fields of the
  environment record, so every theorem holds for whatever they compute.
\<close>

subsection \<open>Strings and paths (Go's strings, path and path/filepath on a Unix host)\<close>

type_synonym path = string
type_synonym bytes = string

definition HasPrefix :: "string \<Rightarrow> string \<Rightarrow> bool" where
  "HasPrefix s pre = (take (length pre) s = pre)"

definition HasSuffix :: "string \<Rightarrow> string \<Rightarrow> bool" where
  "HasSuffix s suf = (length suf \<le> length s \<and> drop (length s - length suf) s = suf)"

definition TrimPrefix :: "string \<Rightarrow> string \<Rightarrow> string" where
  "TrimPrefix s pre = (if HasPrefix s pre then drop (length pre) s else s)"

definition TrimSuffix :: "string \<Rightarrow> string \<Rightarrow> string" where
  "TrimSuffix s suf = (if HasSuffix s suf then take (length s - length suf) s else s)"

text \<open>\<open>strings.Join\<close>.\<close>

fun Join :: "string list \<Rightarrow> string \<Rightarrow> string" where
  "Join [] sep = []"
| "Join [x] sep = x"
| "Join (x # y # ys) sep = x @ sep @ Join (y # ys) sep"

text \<open>\<open>strings.ToLower\<close> on ASCII letters; bytes outside A-Z stay as they are.\<close>

definition lower_char :: "char \<Rightarrow> char" where
  "lower_char c =
     (if 65 \<le> (of_char c :: nat) \<and> (of_char c :: nat) \<le> 90
      then char_of (of_char c + 32 :: nat) else c)"

definition ToLower :: "string \<Rightarrow> string" where
  "ToLower s = map lower_char s"

text \<open>
  \<open>filepath.Ext\<close>: the suffix beginning at the last dot of the last path element, scanning
  from the end and stopping at a separator.
\<close>

fun ext_rev :: "string \<Rightarrow> string \<Rightarrow> string" where
  "ext_rev [] acc = []"
| "ext_rev (c # cs) acc =
     (if c = CHR ''/'' then []
      else if c = CHR ''.'' then c # acc
      else ext_rev cs (c # acc))"

definition Ext :: "path \<Rightarrow> string" where
  "Ext p = ext_rev (rev p) []"

text \<open>\<open>filepath.Base\<close> / \<open>path.Base\<close>: trailing slashes stripped, then the last element.\<close>

definition Base :: "path \<Rightarrow> string" where
  "Base p =
     (if p = [] then ''.''
      else let q = rev (dropWhile (\<lambda>c. c = CHR ''/'') (rev p)) in
        if q = [] then ''/''
        else rev (takeWhile (\<lambda>c. c \<noteq> CHR ''/'') (rev q)))"

text \<open>Splitting at slashes, for \<open>Clean\<close>.\<close>

fun split_slash :: "string \<Rightarrow> string \<Rightarrow> string list" where
  "split_slash [] cur = [rev cur]"
| "split_slash (c # cs) cur =
     (if c = CHR ''/'' then rev cur # split_slash cs [] else split_slash cs (c # cur))"

text \<open>
  The element pass of \<open>path.Clean\<close>: empty and \<open>.\<close> elements vanish, \<open>..\<close> removes the
  element before it when there is one to remove, is dropped at the root of a rooted path and
  is kept at the front of a relative one. The stack is kept reversed.
\<close>

fun clean_elems :: "bool \<Rightarrow> string list \<Rightarrow> string list \<Rightarrow> string list" where
  "clean_elems rooted stack [] = rev stack"
| "clean_elems rooted stack (e # es) =
     (if e = [] \<or> e = ''.'' then clean_elems rooted stack es
      else if e = ''..'' then
        (case stack of
           [] \<Rightarrow> if rooted then clean_elems rooted [] es else clean_elems rooted [''..''] es
         | t # ts \<Rightarrow>
             if t = ''..'' then clean_elems rooted (''..'' # stack) es
             else clean_elems rooted ts es)
      else clean_elems rooted (e # stack) es)"

definition Clean :: "path \<Rightarrow> path" where
  "Clean p =
     (if p = [] then ''.''
      else let rooted = (hd p = CHR ''/'');
               out = (if rooted then ''/'' else []) @ Join (clean_elems rooted [] (split_slash p [])) ''/''
           in if out = [] then ''.'' else out)"

text \<open>
  \<open>path.Join\<close> and, on a Unix host, \<open>filepath.Join\<close>: leading empty elements are ignored,
  the rest is joined with slashes and cleaned; no non-empty element gives the empty string.
\<close>

definition path_Join :: "string list \<Rightarrow> path" where
  "path_Join elems =
     (let es = dropWhile (\<lambda>e. e = []) elems in
      if es = [] then [] else Clean (Join es ''/''))"

subsection \<open>Errors\<close>

text \<open>
  An error is a message, an error wrapped with a message (\<open>errors.Wrap\<close>,
  \<open>errors.Wrapf\<close>), or the failure of a file operation on a path. \<open>Error\<close> is the text
  \<open>%v\<close> prints (for a file operation, without the system's reason).
\<close>

datatype err = New string | Wrap err string | PathError string path

fun Error :: "err \<Rightarrow> string" where
  "Error (New m) = m"
| "Error (Wrap e m) = m @ '': '' @ Error e"
| "Error (PathError op p) = op @ '' '' @ p"

subsection \<open>The world\<close>

text \<open>
  A local file is readable or not and has contents; an absent path maps to \<open>None\<close>.
  \<open>os.Open\<close> and \<open>os.ReadFile\<close> succeed exactly on readable files.
\<close>

datatype local_file = File (readable: bool) (content: bytes)

type_synonym filesystem = "path \<Rightarrow> local_file option"

text \<open>
  Ghost events record the calls whose happening the properties speak of; they change nothing the
  code reads.
\<close>

datatype event =
    LockAcquired
  | LockReleased
  | CheckedPair path path
  | GeneratedCA path path string
  | GeneratedSigned path path string
  | Copied path path

text \<open>
  \<open>unremovable\<close> holds of the paths at which \<open>os.Remove\<close> fails although a file is
  there (a file in a directory the caller may not write, for instance); \<open>ticks\<close> counts the
  readings of \<open>time.Now()\<close> taken so far, \<open>cmds\<close> lists the remote commands issued so far
  (oldest first), \<open>calls\<close> the ghost events.
\<close>

record world =
  fs :: filesystem
  unremovable :: "path \<Rightarrow> bool"
  ticks :: nat
  cmds :: "string list list"
  calls :: "event list"

datatype pem_block = Block (Type: string) (Bytes: bytes)

datatype certificate = Certificate (NotAfter: int)

record RunResult =
  Stdout :: bytes
  Stderr :: bytes

type_synonym ip = "8 word list"

text \<open>A lock request (\<open>mutex.Spec\<close>): the lock's name and the bound on waiting, in nanoseconds.\<close>

record mutex_Spec =
  Name :: string
  Timeout :: int

text \<open>What \<open>filepath.Walk\<close> hands its callback: \<open>os.FileInfo\<close>, as far as the code reads it.\<close>

record FileInfo =
  IsDir :: bool
  Size :: int

type_synonym visit = "path \<times> FileInfo option \<times> err option"

text \<open>
  The environment: everything certs.go calls but does not define. The remote runner answers
  a command given the commands issued before it; \<open>timeNow k\<close> is the k-th reading of the
  clock; \<open>mutex_Acquire\<close> gives the error of taking the lock, if it fails; the certificate
  generators and \<open>copy.Copy\<close> may fail and may change the local files; \<open>WalkVisits root\<close>
  lists the calls \<open>filepath.Walk\<close> makes to its callback under \<open>root\<close>, in order, as long as
  the callback returns no error (this callback never returns \<open>SkipDir\<close>); a SHA-1 digest is
  160 bits.
\<close>

record env =
  pemDecode :: "bytes \<Rightarrow> (pem_block \<times> bytes) option"
  ParseCertificate :: "bytes \<Rightarrow> certificate option"
  timeNow :: "nat \<Rightarrow> int"
  RunCmd :: "string list list \<Rightarrow> string list \<Rightarrow> RunResult \<times> err option"
  Output :: "RunResult \<Rightarrow> string"
  PathMutexSpec :: "path \<Rightarrow> mutex_Spec"
  Sprintf_Spec :: "mutex_Spec \<Rightarrow> string"
  mutex_Acquire :: "mutex_Spec \<Rightarrow> err option"
  util_GenerateCACert :: "path \<Rightarrow> path \<Rightarrow> string \<Rightarrow> filesystem \<Rightarrow> err option \<times> filesystem"
  util_GenerateSignedCert ::
    "path \<Rightarrow> path \<Rightarrow> string \<Rightarrow> ip list \<Rightarrow> string list \<Rightarrow> path \<Rightarrow> path \<Rightarrow> int
      \<Rightarrow> filesystem \<Rightarrow> err option \<times> filesystem"
  copy_Copy :: "path \<Rightarrow> path \<Rightarrow> filesystem \<Rightarrow> err option \<times> filesystem"
  util_GetServiceClusterIP :: "string \<Rightarrow> err + ip"
  util_GetAlternateDNS :: "string \<Rightarrow> string list"
  net_ParseIP :: "string \<Rightarrow> ip"
  ip_String :: "ip \<Rightarrow> string"
  sha1_Sum :: "bytes \<Rightarrow> 160 word"
  oci_DaemonHost :: "string \<Rightarrow> string"
  oci_DefaultBindIPV4 :: string
  ControlPlaneAlias :: string
  KubeadmYamlPath :: path
  MiniPath :: path
  CACert :: path
  Profile :: "string \<Rightarrow> path"
  ClientCert :: "string \<Rightarrow> path"
  ClientKey :: "string \<Rightarrow> path"
  GuestPersistentDir :: path
  GuestCertAuthDir :: path
  GuestCertStoreDir :: path
  WalkVisits :: "path \<Rightarrow> visit list"
  IsNotExist :: "err \<Rightarrow> bool"

definition canRead :: "path \<Rightarrow> world \<Rightarrow> bool" where
  "canRead p w = (case fs w p of None \<Rightarrow> False | Some f \<Rightarrow> readable f)"

definition ReadFile :: "path \<Rightarrow> world \<Rightarrow> err + bytes" where
  "ReadFile p w =
     (case fs w p of
        None \<Rightarrow> Inl (PathError ''open'' p)
      | Some f \<Rightarrow> if readable f then Inr (content f) else Inl (PathError ''open'' p))"

text \<open>
  \<open>os.Remove\<close>: it fails on an absent path and on an unremovable one, and leaves the
  files as they are then; otherwise the file is gone.
\<close>

definition Remove :: "path \<Rightarrow> world \<Rightarrow> err option \<times> world" where
  "Remove p w =
     (case fs w p of
        None \<Rightarrow> (Some (PathError ''remove'' p), w)
      | Some f \<Rightarrow>
          if unremovable w p then (Some (PathError ''remove'' p), w)
          else (None, w\<lparr>fs := (fs w)(p := None)\<rparr>))"

definition Now :: "env \<Rightarrow> world \<Rightarrow> int \<times> world" where
  "Now E w = (timeNow E (ticks w), w\<lparr>ticks := Suc (ticks w)\<rparr>)"

definition logEvent :: "event \<Rightarrow> world \<Rightarrow> world" where
  "logEvent ev w = w\<lparr>calls := calls w @ [ev]\<rparr>"

subsection \<open>isValid\<close>

text \<open>
  \<open>isValid\<close> (certs.go, 540-578), check by check in the source's order. An unreadable key
  returns at once; every later failure calls \<open>os.Remove\<close> on the certificate and then on
  the key, and discards the error of both. The call
  leaves its ghost event first. The clock is read once, for the comparison; the second
  reading, inside the log line of the expiry branch, goes with the logging.
\<close>

definition removePair :: "path \<Rightarrow> path \<Rightarrow> world \<Rightarrow> world" where
  "removePair certPath keyPath w =
     (let (err1, w1) = Remove certPath w;
          (err2, w2) = Remove keyPath w1
      in w2)"

definition isValid :: "env \<Rightarrow> path \<Rightarrow> path \<Rightarrow> world \<Rightarrow> bool \<times> world" where
  "isValid E certPath keyPath w0 =
     (let w = logEvent (CheckedPair certPath keyPath) w0 in
      if \<not> canRead keyPath w then (False, w)
      else case ReadFile certPath w of
        Inl err \<Rightarrow> (False, removePair certPath keyPath w)
      | Inr certFile \<Rightarrow>
          (case pemDecode E certFile of
             None \<Rightarrow> (False, removePair certPath keyPath w)
           | Some (certData, rest) \<Rightarrow>
               (case ParseCertificate E (Bytes certData) of
                  None \<Rightarrow> (False, removePair certPath keyPath w)
                | Some cert \<Rightarrow>
                    let (now, w1) = Now E w in
                    if NotAfter cert < now then (False, removePair certPath keyPath w1)
                    else (True, w1))))"

subsection \<open>isKubeadmCertValid and generateKubeadmCerts\<close>

text \<open>\<open>cmd.RunCmd\<close>: the runner answers, and the command joins the list of those issued.\<close>

definition runCmd :: "env \<Rightarrow> string list \<Rightarrow> world \<Rightarrow> (RunResult \<times> err option) \<times> world" where
  "runCmd E argv w = (RunCmd E (cmds w) argv, w\<lparr>cmds := cmds w @ [argv]\<rparr>)"

text \<open>
  \<open>isKubeadmCertValid\<close> (certs.go, 580-606): the certificate is read with a remote \<open>cat\<close>;
  a failed read answers true.
\<close>

definition isKubeadmCertValid :: "env \<Rightarrow> path \<Rightarrow> world \<Rightarrow> bool \<times> world" where
  "isKubeadmCertValid E certPath w0 =
     (let ((rr, err), w) = runCmd E [''cat'', certPath] w0 in
      case err of
        Some e \<Rightarrow> (True, w)
      | None \<Rightarrow>
          (case pemDecode E (Stdout rr) of
             None \<Rightarrow> (False, w)
           | Some (certData, rest) \<Rightarrow>
               (case ParseCertificate E (Bytes certData) of
                  None \<Rightarrow> (False, w)
                | Some cert \<Rightarrow>
                    let (now, w1) = Now E w in
                    if NotAfter cert < now then (False, w1) else (True, w1))))"

definition kubeadmCerts :: "string list" where
  "kubeadmCerts =
     [''apiserver-etcd-client'', ''apiserver-kubelet-client'', ''etcd-server'',
      ''etcd-healthcheck-client'', ''etcd-peer'', ''front-proxy-client'']"

text \<open>The remote path of one kubeadm certificate (the loop body's \<open>certPath\<close>, joined).\<close>

definition kubeadmCertPath :: "env \<Rightarrow> string \<Rightarrow> path" where
  "kubeadmCertPath E cert =
     (let certPath = [GuestPersistentDir E, ''certs''];
          certPath = (if HasPrefix cert ''etcd-'' then certPath @ [''etcd''] else certPath);
          certPath = certPath @ [TrimPrefix cert ''etcd-'' @ ''.crt'']
      in path_Join certPath)"

fun kubeadmLoop :: "env \<Rightarrow> string list \<Rightarrow> bool \<Rightarrow> world \<Rightarrow> bool \<times> world" where
  "kubeadmLoop E [] needsRefresh w = (needsRefresh, w)"
| "kubeadmLoop E (cert # certs) needsRefresh w =
     (let (valid, w1) = isKubeadmCertValid E (kubeadmCertPath E cert) w in
      kubeadmLoop E certs (if \<not> valid then True else needsRefresh) w1)"

record KubernetesConfig =
  KubernetesVersion :: string
  ClusterName :: string
  APIServerName :: string
  APIServerNames :: "string list"
  APIServerIPs :: "ip list"
  DNSDomain :: string
  ContainerRuntime :: string
  ServiceCIDR :: string

record ClusterConfig =
  KubernetesConfig :: KubernetesConfig
  CertExpiration :: int

record Node =
  IP :: string
  ControlPlane :: bool

definition renewCommand :: "env \<Rightarrow> ClusterConfig \<Rightarrow> string list" where
  "renewCommand E cc =
     (let kubeadmPath = path_Join [GuestPersistentDir E, ''binaries'',
                                   KubernetesVersion (KubernetesConfig cc)];
          bashCmd = ''sudo env PATH='' @ [CHR 0x22] @ kubeadmPath @ '':$PATH'' @ [CHR 0x22]
                    @ '' kubeadm certs renew all --config '' @ KubeadmYamlPath E
      in [''/bin/bash'', ''-c'', bashCmd])"

text \<open>\<open>generateKubeadmCerts\<close> (certs.go, 351-376).\<close>

definition generateKubeadmCerts :: "env \<Rightarrow> ClusterConfig \<Rightarrow> world \<Rightarrow> err option \<times> world" where
  "generateKubeadmCerts E cc w0 =
     (let (needsRefresh, w1) = kubeadmLoop E kubeadmCerts False w0 in
      if \<not> needsRefresh then (None, w1)
      else
        let ((rr, err), w2) = runCmd E (renewCommand E cc) w1 in
        case err of
          Some e \<Rightarrow> (Some (New (''failed to renew kubeadm certs: '' @ Error e)), w2)
        | None \<Rightarrow> (None, w2))"

subsection \<open>generateSharedCACerts\<close>

record CACerts =
  caCert :: path
  caKey :: path
  proxyCert :: path
  proxyKey :: path

datatype caCertSpec = CASpec (ca_certPath: path) (ca_keyPath: path) (ca_subject: string)

text \<open>The black-box CA generator, with its ghost event.\<close>

definition GenerateCACert :: "env \<Rightarrow> path \<Rightarrow> path \<Rightarrow> string \<Rightarrow> world \<Rightarrow> err option \<times> world" where
  "GenerateCACert E cp kp subj w =
     (let (err, f) = util_GenerateCACert E cp kp subj (fs w)
      in (err, logEvent (GeneratedCA cp kp subj) (w\<lparr>fs := f\<rparr>)))"

text \<open>
  The loop over the CA specs (certs.go, 197-208); the result is the pair
  (regenProfileCerts, error) the function returns: a failed generation returns false.
\<close>

fun caLoop :: "env \<Rightarrow> caCertSpec list \<Rightarrow> bool \<Rightarrow> world \<Rightarrow> (bool \<times> err option) \<times> world" where
  "caLoop E [] regenProfileCerts w = ((regenProfileCerts, None), w)"
| "caLoop E (ca # cas) regenProfileCerts w =
     (let (valid, w1) = isValid E (ca_certPath ca) (ca_keyPath ca) w in
      if valid then caLoop E cas regenProfileCerts w1
      else
        let (err, w2) = GenerateCACert E (ca_certPath ca) (ca_keyPath ca) (ca_subject ca) w1 in
        case err of
          Some e \<Rightarrow> ((False, Some (Wrap e ''generate ca cert'')), w2)
        | None \<Rightarrow> caLoop E cas True w2)"

definition sharedCACerts :: "env \<Rightarrow> CACerts" where
  "sharedCACerts E =
     \<lparr>caCert = CACert E,
      caKey = path_Join [MiniPath E, ''ca.key''],
      proxyCert = path_Join [MiniPath E, ''proxy-client-ca.crt''],
      proxyKey = path_Join [MiniPath E, ''proxy-client-ca.key'']\<rparr>"

definition caCertSpecs :: "CACerts \<Rightarrow> caCertSpec list" where
  "caCertSpecs cc =
     [CASpec (caCert cc) (caKey cc) ''minikubeCA'',
      CASpec (proxyCert cc) (proxyKey cc) ''proxyClientCA'']"

definition caLockSpec :: "env \<Rightarrow> mutex_Spec" where
  "caLockSpec E = (PathMutexSpec E (path_Join [MiniPath E, ''ca-certs'']))\<lparr>Timeout := 60000000000\<rparr>"

text \<open>
  \<open>generateSharedCACerts\<close> (certs.go, 159-211). The deferred \<open>releaser.Release()\<close> runs
  after the loop's result is fixed, on both of its exits.
\<close>

definition generateSharedCACerts :: "env \<Rightarrow> world \<Rightarrow> (CACerts \<times> bool \<times> err option) \<times> world" where
  "generateSharedCACerts E w0 =
     (let cc = sharedCACerts E;
          spec = caLockSpec E
      in case mutex_Acquire E spec of
           Some e \<Rightarrow>
             ((cc, False,
               Some (Wrap e (''unable to acquire lock for shared ca certs '' @ Sprintf_Spec E spec))),
              w0)
         | None \<Rightarrow>
             let w1 = logEvent LockAcquired w0;
                 ((regen, err), w2) = caLoop E (caCertSpecs cc) False w1
             in ((cc, regen, err), logEvent LockReleased w2))"

subsection \<open>generateProfileCerts\<close>

record certSpec =
  certPath :: path
  keyPath :: path
  hash :: string
  subject :: string
  ips :: "ip list"
  alternateNames :: "string list"
  caCertPath :: path
  caKeyPath :: path

text \<open>
  The IPs and alternate names of the API-server certificate (certs.go, 229-249). A failed
  \<open>net.ParseIP\<close> is the nil address, the empty byte list.
\<close>

definition apiServerSANs :: "env \<Rightarrow> KubernetesConfig \<Rightarrow> Node \<Rightarrow> ip \<Rightarrow> ip list \<times> string list" where
  "apiServerSANs E k8s n serviceIP =
     (let apiServerIPs = APIServerIPs k8s @
            [net_ParseIP E (IP n), serviceIP, net_ParseIP E (oci_DefaultBindIPV4 E),
             net_ParseIP E ''10.0.0.1''];
          apiServerNames = APIServerNames k8s @ [APIServerName k8s, ControlPlaneAlias E];
          apiServerAlternateNames = apiServerNames @ util_GetAlternateDNS E (DNSDomain k8s);
          daemonHost = oci_DaemonHost E (ContainerRuntime k8s)
      in if daemonHost \<noteq> oci_DefaultBindIPV4 E then
           (let daemonHostIP = net_ParseIP E daemonHost in
            if daemonHostIP \<noteq> [] then (apiServerIPs @ [daemonHostIP], apiServerAlternateNames)
            else (apiServerIPs, apiServerAlternateNames @ [daemonHost]))
         else (apiServerIPs, apiServerAlternateNames))"

text \<open>
  The hash input (certs.go, 252-257), sorted as \<open>sort.Strings\<close> sorts: by bytes,
  lexicographically.
\<close>

definition hashInput :: "env \<Rightarrow> string list \<Rightarrow> ip list \<Rightarrow> string list" where
  "hashInput E apiServerAlternateNames apiServerIPs =
     sort (apiServerAlternateNames @ map (ip_String E) apiServerIPs)"

definition hexDigit :: "nat \<Rightarrow> char" where
  "hexDigit n = ''0123456789abcdef'' ! n"

text \<open>\<open>fmt.Sprintf("%x", digest)\<close>: the forty hexadecimal digits, highest first.\<close>

definition Sprintf_x :: "160 word \<Rightarrow> string" where
  "Sprintf_x d = map (\<lambda>i. hexDigit (unat (drop_bit (4 * (39 - i)) d AND 15))) [0..<40]"

text \<open>The \<open>hash\<close> field of the API-server spec (certs.go, 280).\<close>

definition sanHash :: "env \<Rightarrow> string list \<Rightarrow> ip list \<Rightarrow> string" where
  "sanHash E apiServerAlternateNames apiServerIPs =
     take 8 (Sprintf_x (sha1_Sum E (Join (hashInput E apiServerAlternateNames apiServerIPs) ''/'')))"

definition profileCertSpecs ::
  "env \<Rightarrow> KubernetesConfig \<Rightarrow> CACerts \<Rightarrow> ip list \<Rightarrow> string list \<Rightarrow> certSpec list" where
  "profileCertSpecs E k8s ccs apiServerIPs apiServerAlternateNames =
     (let profilePath = Profile E (ClusterName k8s) in
      [\<lparr>certPath = ClientCert E (ClusterName k8s),
        keyPath = ClientKey E (ClusterName k8s),
        hash = [],
        subject = ''minikube-user'',
        ips = [],
        alternateNames = [],
        caCertPath = caCert ccs,
        caKeyPath = caKey ccs\<rparr>,
       \<lparr>certPath = path_Join [profilePath, ''apiserver.crt''],
        keyPath = path_Join [profilePath, ''apiserver.key''],
        hash = sanHash E apiServerAlternateNames apiServerIPs,
        subject = ''minikube'',
        ips = apiServerIPs,
        alternateNames = apiServerAlternateNames,
        caCertPath = caCert ccs,
        caKeyPath = caKey ccs\<rparr>,
       \<lparr>certPath = path_Join [profilePath, ''proxy-client.crt''],
        keyPath = path_Join [profilePath, ''proxy-client.key''],
        hash = [],
        subject = ''aggregator'',
        ips = [],
        alternateNames = [],
        caCertPath = proxyCert ccs,
        caKeyPath = proxyKey ccs\<rparr>])"

text \<open>The pair the validity check and the generator work on (certs.go, 307-312).\<close>

definition effectivePaths :: "certSpec \<Rightarrow> path \<times> path" where
  "effectivePaths spec =
     (if hash spec \<noteq> [] then (certPath spec @ ''.'' @ hash spec, keyPath spec @ ''.'' @ hash spec)
      else (certPath spec, keyPath spec))"

text \<open>The black-box signed-certificate generator and \<open>copy.Copy\<close>, with their ghost events.\<close>

definition GenerateSignedCert ::
  "env \<Rightarrow> path \<Rightarrow> path \<Rightarrow> string \<Rightarrow> ip list \<Rightarrow> string list \<Rightarrow> path \<Rightarrow> path \<Rightarrow> int
    \<Rightarrow> world \<Rightarrow> err option \<times> world" where
  "GenerateSignedCert E cp kp subj sips names cacp cakp expiration w =
     (let (err, f) = util_GenerateSignedCert E cp kp subj sips names cacp cakp expiration (fs w)
      in (err, logEvent (GeneratedSigned cp kp subj) (w\<lparr>fs := f\<rparr>)))"

definition Copy :: "env \<Rightarrow> path \<Rightarrow> path \<Rightarrow> world \<Rightarrow> err option \<times> world" where
  "Copy E src dst w =
     (let (err, f) = copy_Copy E src dst (fs w)
      in (err, logEvent (Copied src dst) (w\<lparr>fs := f\<rparr>)))"

definition removeIfReadable :: "path \<Rightarrow> world \<Rightarrow> world" where
  "removeIfReadable p w = (if canRead p w then (let (err, w1) = Remove p w in w1) else w)"

text \<open>\<open>%q\<close> of a string with nothing to escape.\<close>

definition quoted :: "string \<Rightarrow> string" where
  "quoted s = [CHR 0x22] @ s @ [CHR 0x22]"

text \<open>
  The end of an iteration (certs.go, 336-345): a fingerprinted pair is copied over the
  canonical paths.
\<close>

definition promoteHashed :: "env \<Rightarrow> certSpec \<Rightarrow> path \<Rightarrow> path \<Rightarrow> world \<Rightarrow> err option \<times> world" where
  "promoteHashed E spec cp kp w4 =
     (if hash spec \<noteq> [] then
        (let (err1, w5) = Copy E cp (certPath spec) w4 in
         case err1 of
           Some e \<Rightarrow> (Some (Wrap e ''copy cert''), w5)
         | None \<Rightarrow>
             (let (err2, w6) = Copy E kp (keyPath spec) w5 in
              case err2 of
                Some e \<Rightarrow> (Some (Wrap e ''copy key''), w6)
              | None \<Rightarrow> (None, w6)))
      else (None, w4))"

text \<open>
  The part of an iteration after the skip test (certs.go, 319-345): readable leftovers are
  removed, the generator is called, the pair is promoted.
\<close>

definition regenerate ::
  "env \<Rightarrow> ClusterConfig \<Rightarrow> certSpec \<Rightarrow> path \<Rightarrow> path \<Rightarrow> world \<Rightarrow> err option \<times> world" where
  "regenerate E cfg spec cp kp w1 =
     (let w2 = removeIfReadable cp w1;
          w3 = removeIfReadable kp w2;
          (err, w4) = GenerateSignedCert E cp kp (subject spec) (ips spec)
                        (alternateNames spec) (caCertPath spec) (caKeyPath spec)
                        (CertExpiration cfg) w3
      in case err of
           Some e \<Rightarrow> (Some (Wrap e (''generate signed cert for '' @ quoted (subject spec))), w4)
         | None \<Rightarrow> promoteHashed E spec cp kp w4)"

text \<open>
  One iteration of the loop over the specs (certs.go, 301-346). The error is \<open>Some\<close> exactly
  when the iteration returns from the function; \<open>!regen && isValid(cp, kp)\<close> calls
  \<open>isValid\<close> only when \<open>regen\<close> is false.
\<close>

definition leafStep ::
  "env \<Rightarrow> ClusterConfig \<Rightarrow> bool \<Rightarrow> certSpec \<Rightarrow> string list \<Rightarrow> world
    \<Rightarrow> (string list \<times> err option) \<times> world" where
  "leafStep E cfg regen spec xfer0 w0 =
     (let xfer = (if subject spec \<noteq> ''minikube-user''
                  then xfer0 @ [certPath spec, keyPath spec] else xfer0);
          (cp, kp) = effectivePaths spec;
          (skip, w1) = (if \<not> regen then isValid E cp kp w0 else (False, w0))
      in if skip then ((xfer, None), w1)
         else
           let (err, w4) = regenerate E cfg spec cp kp w1 in ((xfer, err), w4))"

fun leafLoop ::
  "env \<Rightarrow> ClusterConfig \<Rightarrow> bool \<Rightarrow> certSpec list \<Rightarrow> string list \<Rightarrow> world
    \<Rightarrow> (string list \<times> err option) \<times> world" where
  "leafLoop E cfg regen [] xfer w = ((xfer, None), w)"
| "leafLoop E cfg regen (spec # specs) xfer w =
     (let ((xfer1, err), w1) = leafStep E cfg regen spec xfer w in
      case err of
        Some e \<Rightarrow> ((xfer1, Some e), w1)
      | None \<Rightarrow> leafLoop E cfg regen specs xfer1 w1)"

text \<open>\<open>generateProfileCerts\<close> (certs.go, 214-349); a nil slice is the empty list.\<close>

definition generateProfileCerts ::
  "env \<Rightarrow> ClusterConfig \<Rightarrow> Node \<Rightarrow> CACerts \<Rightarrow> bool \<Rightarrow> world
    \<Rightarrow> (string list \<times> err option) \<times> world" where
  "generateProfileCerts E cfg n ccs regen w =
     (if \<not> ControlPlane n then (([], None), w)
      else
        let k8s = KubernetesConfig cfg in
        case util_GetServiceClusterIP E (ServiceCIDR k8s) of
          Inl e \<Rightarrow> (([], Some (Wrap e ''getting service cluster ip'')), w)
        | Inr serviceIP \<Rightarrow>
            (let (apiServerIPs, apiServerAlternateNames) = apiServerSANs E k8s n serviceIP in
             leafLoop E cfg regen
               (profileCertSpecs E k8s ccs apiServerIPs apiServerAlternateNames) [] w))"

subsection \<open>isValidPEMCertificate and collectCACerts\<close>

text \<open>
  The decoding loop of \<open>isValidPEMCertificate\<close> (certs.go, 385-396). Nothing in certs.go
  bounds it, so it is a partial function: \<open>None\<close> is a loop that never ends.
\<close>

partial_function (option) pemScan :: "env \<Rightarrow> bytes \<Rightarrow> bool option" where
  "pemScan E fileBytes =
     (case pemDecode E fileBytes of
        None \<Rightarrow> Some False
      | Some (block, rest) \<Rightarrow>
          if Type block = ''CERTIFICATE'' then Some True else pemScan E rest)"

declare pemScan.simps [code]

definition isValidPEMCertificate :: "env \<Rightarrow> path \<Rightarrow> world \<Rightarrow> (bool \<times> err option) option" where
  "isValidPEMCertificate E filePath w =
     (case ReadFile filePath w of
        Inl err \<Rightarrow> Some (False, Some err)
      | Inr fileBytes \<Rightarrow> map_option (\<lambda>b. (b, None)) (pemScan E fileBytes))"

text \<open>
  The callback given to \<open>filepath.Walk\<close> (certs.go, 409-446); \<open>fullPath\<close> is only logged.
  The Go map \<open>certFiles\<close> is a partial function from host paths.
\<close>

definition walkFn ::
  "env \<Rightarrow> world \<Rightarrow> (path \<rightharpoonup> string) \<Rightarrow> visit \<Rightarrow> ((path \<rightharpoonup> string) \<times> err option) option" where
  "walkFn E w certFiles v =
     (case v of (hostpath, info, err) \<Rightarrow>
       (case err of
          Some e \<Rightarrow> if IsNotExist E e then Some (certFiles, None) else Some (certFiles, Some e)
        | None \<Rightarrow>
            (case info of
               None \<Rightarrow> Some (certFiles, None)
             | Some info \<Rightarrow>
                 if IsDir info then Some (certFiles, None)
                 else
                   let ext = ToLower (Ext hostpath) in
                   if ext = ''.crt'' \<or> ext = ''.pem'' then
                     if Size info < 32 then Some (certFiles, None)
                     else
                       (case isValidPEMCertificate E hostpath w of
                          None \<Rightarrow> None
                        | Some (validPem, Some e) \<Rightarrow> Some (certFiles, Some e)
                        | Some (validPem, None) \<Rightarrow>
                            if validPem then
                              (let filename = Base hostpath;
                                   dst = TrimSuffix filename ext @ ''.'' @ ''pem''
                               in Some (certFiles(hostpath \<mapsto> path_Join [GuestCertAuthDir E, dst]),
                                        None))
                            else Some (certFiles, None))
                   else Some (certFiles, None))))"

text \<open>\<open>filepath.Walk\<close>: the visits in order, stopping at the callback's first error.\<close>

fun Walk ::
  "env \<Rightarrow> world \<Rightarrow> visit list \<Rightarrow> (path \<rightharpoonup> string) \<Rightarrow> ((path \<rightharpoonup> string) \<times> err option) option" where
  "Walk E w [] certFiles = Some (certFiles, None)"
| "Walk E w (v # vs) certFiles =
     (case walkFn E w certFiles v of
        None \<Rightarrow> None
      | Some (certFiles1, Some e) \<Rightarrow> Some (certFiles1, Some e)
      | Some (certFiles1, None) \<Rightarrow> Walk E w vs certFiles1)"

text \<open>The loop over the two directories (certs.go, 408-455); an error returns the nil map.\<close>

fun collectDirs ::
  "env \<Rightarrow> world \<Rightarrow> path list \<Rightarrow> (path \<rightharpoonup> string) \<Rightarrow> ((path \<rightharpoonup> string) \<times> err option) option" where
  "collectDirs E w [] certFiles = Some (certFiles, None)"
| "collectDirs E w (certsDir # dirs) certFiles =
     (case Walk E w (WalkVisits E certsDir) certFiles of
        None \<Rightarrow> None
      | Some (certFiles1, Some e) \<Rightarrow>
          Some (Map.empty,
                Some (Wrap e (''provisioning: traversal certificates dir '' @ certsDir)))
      | Some (certFiles1, None) \<Rightarrow>
          collectDirs E w dirs
            (certFiles1(path_Join [certsDir, ''ca.pem''] \<mapsto> [],
                        path_Join [certsDir, ''cert.pem''] \<mapsto> [])))"

definition scannedDirs :: "env \<Rightarrow> path list" where
  "scannedDirs E =
     [path_Join [MiniPath E, ''certs''],
      path_Join [MiniPath E, ''files'', ''etc'', ''ssl'', ''certs'']]"

text \<open>\<open>collectCACerts\<close> (certs.go, 403-467).\<close>

definition collectCACerts :: "env \<Rightarrow> world \<Rightarrow> ((path \<rightharpoonup> string) \<times> err option) option" where
  "collectCACerts E w =
     (case collectDirs E w (scannedDirs E) Map.empty of
        None \<Rightarrow> None
      | Some (certFiles0, Some e) \<Rightarrow> Some (Map.empty, Some e)
      | Some (certFiles0, None) \<Rightarrow>
          (let certFiles = certFiles0(path_Join [MiniPath E, ''ca.crt'']
                             \<mapsto> path_Join [GuestCertAuthDir E, ''minikubeCA.pem'']);
               filtered = (\<lambda>k. case certFiles k of
                                  None \<Rightarrow> None
                                | Some v \<Rightarrow> if v \<noteq> [] then Some v else None)
           in Some (filtered, None)))"

subsection \<open>getSubjectHash and installCertSymlinks\<close>

text \<open>
  \<open>strings.TrimSpace\<close> cuts the leading and the trailing white space, white space being
  the code points of \<open>unicode.IsSpace\<close>: the six ASCII ones, U+0085, U+00A0, U+1680,
  U+2000 to U+200A, U+2028, U+2029, U+202F, U+205F and U+3000, here in their UTF-8 encoding.
  Bytes that are no valid encoding of one of these decode to some other rune and stay.
\<close>

definition spaceRunes :: "string list" where
  "spaceRunes =
     [[CHR 0x09], [CHR 0x0A], [CHR 0x0B], [CHR 0x0C], [CHR 0x0D], [CHR 0x20],
      [CHR 0xC2, CHR 0x85], [CHR 0xC2, CHR 0xA0],
      [CHR 0xE1, CHR 0x9A, CHR 0x80],
      [CHR 0xE2, CHR 0x80, CHR 0x80], [CHR 0xE2, CHR 0x80, CHR 0x81],
      [CHR 0xE2, CHR 0x80, CHR 0x82], [CHR 0xE2, CHR 0x80, CHR 0x83],
      [CHR 0xE2, CHR 0x80, CHR 0x84], [CHR 0xE2, CHR 0x80, CHR 0x85],
      [CHR 0xE2, CHR 0x80, CHR 0x86], [CHR 0xE2, CHR 0x80, CHR 0x87],
      [CHR 0xE2, CHR 0x80, CHR 0x88], [CHR 0xE2, CHR 0x80, CHR 0x89],
      [CHR 0xE2, CHR 0x80, CHR 0x8A],
      [CHR 0xE2, CHR 0x80, CHR 0xA8], [CHR 0xE2, CHR 0x80, CHR 0xA9],
      [CHR 0xE2, CHR 0x80, CHR 0xAF], [CHR 0xE2, CHR 0x81, CHR 0x9F],
      [CHR 0xE3, CHR 0x80, CHR 0x80]]"

text \<open>The number of bytes of the white-space rune a string begins or ends with, 0 if none.\<close>

definition leadingSpace :: "string \<Rightarrow> nat" where
  "leadingSpace s = (case find (HasPrefix s) spaceRunes of None \<Rightarrow> 0 | Some r \<Rightarrow> length r)"

definition trailingSpace :: "string \<Rightarrow> nat" where
  "trailingSpace s = (case find (HasSuffix s) spaceRunes of None \<Rightarrow> 0 | Some r \<Rightarrow> length r)"

text \<open>
  Cutting from the left: the first argument counts the bytes still to skip of the rune being
  cut. Cutting from the right is the same on the reversed string.
\<close>

fun trimLeft :: "nat \<Rightarrow> string \<Rightarrow> string" where
  "trimLeft k [] = []"
| "trimLeft (Suc k) (c # cs) = trimLeft k cs"
| "trimLeft 0 (c # cs) =
     (case leadingSpace (c # cs) of 0 \<Rightarrow> c # cs | Suc n \<Rightarrow> trimLeft n cs)"

fun trimRight :: "nat \<Rightarrow> string \<Rightarrow> string" where
  "trimRight k [] = []"
| "trimRight (Suc k) (c # cs) = trimRight k cs"
| "trimRight 0 (c # cs) =
     (case trailingSpace (rev (c # cs)) of 0 \<Rightarrow> c # cs | Suc n \<Rightarrow> trimRight n cs)"

definition TrimSpace :: "string \<Rightarrow> string" where
  "TrimSpace s = rev (trimRight 0 (rev (trimLeft 0 s)))"

text \<open>\<open>getSubjectHash\<close> (certs.go, 470-484).\<close>

definition getSubjectHash :: "env \<Rightarrow> path \<Rightarrow> world \<Rightarrow> (string \<times> err option) \<times> world" where
  "getSubjectHash E filePath w0 =
     (let ((lrr, err), w1) = runCmd E [''ls'', ''-la'', filePath] w0 in
      case err of
        Some e \<Rightarrow> (([], Some e), w1)
      | None \<Rightarrow>
          (let ((rr, err1), w2) =
                 runCmd E [''openssl'', ''x509'', ''-hash'', ''-noout'', ''-in'', filePath] w1 in
           case err1 of
             Some e \<Rightarrow>
               (let ((crr, err2), w3) = runCmd E [''cat'', filePath] w2 in
                (([], Some (Wrap e (''cert:'' @ [CHR 0x0A] @ Output E lrr @ [CHR 0x0A] @ ''---''
                                     @ [CHR 0x0A] @ Stdout crr))), w3))
           | None \<Rightarrow> ((TrimSpace (Stdout rr), None), w2)))"

definition certStorePath :: "env \<Rightarrow> path \<Rightarrow> path" where
  "certStorePath E caCertFile = path_Join [GuestCertStoreDir E, Base caCertFile]"

definition directLinkCommand :: "env \<Rightarrow> path \<Rightarrow> string list" where
  "directLinkCommand E caCertFile =
     [''sudo'', ''/bin/bash'', ''-c'',
      ''test -s '' @ caCertFile @ '' && ln -fs '' @ caCertFile @ '' '' @ certStorePath E caCertFile]"

definition subjectHashLink :: "env \<Rightarrow> string \<Rightarrow> path" where
  "subjectHashLink E subjectHash = path_Join [GuestCertStoreDir E, subjectHash @ ''.0'']"

definition hashLinkCommand :: "env \<Rightarrow> path \<Rightarrow> string \<Rightarrow> string list" where
  "hashLinkCommand E caCertFile subjectHash =
     [''sudo'', ''/bin/bash'', ''-c'',
      ''test -L '' @ subjectHashLink E subjectHash @ '' || ln -fs '' @ certStorePath E caCertFile
        @ '' '' @ subjectHashLink E subjectHash]"

text \<open>
  The loop of \<open>installCertSymlinks\<close> (certs.go, 499-523) over the values of the map, in the
  order the iteration happens to take.
\<close>

fun symlinkLoop :: "env \<Rightarrow> bool \<Rightarrow> path list \<Rightarrow> world \<Rightarrow> err option \<times> world" where
  "symlinkLoop E hasSSLBinary [] w = (None, w)"
| "symlinkLoop E hasSSLBinary (caCertFile # rest) w =
     (let ((rr, err), w1) = runCmd E (directLinkCommand E caCertFile) w in
      case err of
        Some e \<Rightarrow> (Some (Wrap e (''create symlink for '' @ caCertFile)), w1)
      | None \<Rightarrow>
          if \<not> hasSSLBinary then symlinkLoop E hasSSLBinary rest w1
          else
            (let ((subjectHash, err1), w2) = getSubjectHash E caCertFile w1 in
             case err1 of
               Some e \<Rightarrow> (Some (Wrap e (''calculate hash for cacert '' @ caCertFile)), w2)
             | None \<Rightarrow>
                 (let ((rr2, err2), w3) = runCmd E (hashLinkCommand E caCertFile subjectHash) w2 in
                  case err2 of
                    Some e \<Rightarrow> (Some (Wrap e (''create symlink for '' @ caCertFile)), w3)
                  | None \<Rightarrow> symlinkLoop E hasSSLBinary rest w3)))"

text \<open>
  \<open>installCertSymlinks\<close> (certs.go, 488-525); \<open>caCerts\<close> lists the entries of the map
  (source, destination) in iteration order.
\<close>

definition installCertSymlinks :: "env \<Rightarrow> (path \<times> path) list \<Rightarrow> world \<Rightarrow> err option \<times> world" where
  "installCertSymlinks E caCerts w0 =
     (let ((rr, err), w1) = runCmd E [''openssl'', ''version''] w0;
          hasSSLBinary = (err = None)
      in symlinkLoop E hasSSLBinary (map snd caCerts) w1)"

section \<open>Notions used to state the properties\<close>

text \<open>The events that are CA work: validity checks and CA generations.\<close>

fun isCAWork :: "event \<Rightarrow> bool" where
  "isCAWork (CheckedPair cp kp) = True"
| "isCAWork (GeneratedCA cp kp subj) = True"
| "isCAWork ev = False"



text \<open>
  The remote commands \<open>installCertSymlinks\<close> may issue for one certificate file, given the
  subject hash the remote side reported for it.
\<close>

definition entryCommands :: "env \<Rightarrow> path \<Rightarrow> string \<Rightarrow> string list list" where
  "entryCommands E caCertFile subjectHash =
     [directLinkCommand E caCertFile,
      [''ls'', ''-la'', caCertFile],
      [''openssl'', ''x509'', ''-hash'', ''-noout'', ''-in'', caCertFile],
      [''cat'', caCertFile],
      hashLinkCommand E caCertFile subjectHash]"

section \<open>A concrete environment\<close>

text \<open>
  A small environment on which the model runs: a decoder for a toy certificate format (a
  block is a tag letter, a payload and a semicolon), a parser that knows three payloads, a
  clock that stands at 1000, a runner that answers every \<open>cat\<close> with a fresh certificate,
  generators that write a fresh pair. The theorems below hold for every environment; this
  one instantiates them.
\<close>

definition toyBlock :: "string \<Rightarrow> bytes \<Rightarrow> (pem_block \<times> bytes) option" where
  "toyBlock t cs =
     Some (Block t (takeWhile (\<lambda>x. x \<noteq> CHR '';'') cs), drop 1 (dropWhile (\<lambda>x. x \<noteq> CHR '';'') cs))"

definition toyDecode :: "bytes \<Rightarrow> (pem_block \<times> bytes) option" where
  "toyDecode bs =
     (case bs of
        [] \<Rightarrow> None
      | c # cs \<Rightarrow>
          if c = CHR ''C'' then toyBlock ''CERTIFICATE'' cs
          else if c = CHR ''K'' then toyBlock ''PRIVATE KEY'' cs
          else None)"

definition toyParse :: "bytes \<Rightarrow> certificate option" where
  "toyParse bs =
     (if bs = ''fresh'' then Some (Certificate 2000)
      else if bs = ''edge'' then Some (Certificate 1000)
      else if bs = ''old'' then Some (Certificate 999)
      else None)"

definition noOutput :: RunResult where
  "noOutput = \<lparr>Stdout = [], Stderr = []\<rparr>"

definition toyRun :: "string list list \<Rightarrow> string list \<Rightarrow> RunResult \<times> err option" where
  "toyRun h argv =
     (if take 1 argv = [''cat''] then (\<lparr>Stdout = ''Cfresh;'', Stderr = []\<rparr>, None)
      else if take 2 argv = [''openssl'', ''x509''] then
        (\<lparr>Stdout = ''3a2b1c0d'' @ [CHR 0x0A], Stderr = []\<rparr>, None)
      else (noOutput, None))"

definition toyWrite :: "path \<Rightarrow> path \<Rightarrow> filesystem \<Rightarrow> err option \<times> filesystem" where
  "toyWrite cp kp f = (None, f(cp \<mapsto> File True ''Cfresh;'', kp \<mapsto> File True ''Kkey;''))"

definition toyCopy :: "path \<Rightarrow> path \<Rightarrow> filesystem \<Rightarrow> err option \<times> filesystem" where
  "toyCopy src dst f =
     (case f src of
        None \<Rightarrow> (Some (PathError ''open'' src), f)
      | Some x \<Rightarrow> (None, f(dst \<mapsto> x)))"

definition toyParseIP :: "string \<Rightarrow> ip" where
  "toyParseIP s =
     (if s = ''192.168.49.2'' then [192, 168, 49, 2]
      else if s = ''127.0.0.1'' then [127, 0, 0, 1]
      else if s = ''10.0.0.1'' then [10, 0, 0, 1]
      else [])"

definition toyIPString :: "ip \<Rightarrow> string" where
  "toyIPString a =
     (if a = [192, 168, 49, 2] then ''192.168.49.2''
      else if a = [127, 0, 0, 1] then ''127.0.0.1''
      else if a = [10, 0, 0, 1] then ''10.0.0.1''
      else if a = [10, 96, 0, 1] then ''10.96.0.1''
      else ''<nil>'')"

definition E0 :: env where
  "E0 = \<lparr>pemDecode = toyDecode,
         ParseCertificate = toyParse,
         timeNow = (\<lambda>k. 1000),
         RunCmd = toyRun,
         Output = (\<lambda>rr. Stdout rr @ Stderr rr),
         PathMutexSpec = (\<lambda>p. \<lparr>Name = p, Timeout = 0\<rparr>),
         Sprintf_Spec = Name,
         mutex_Acquire = (\<lambda>s. None),
         util_GenerateCACert = (\<lambda>cp kp subj. toyWrite cp kp),
         util_GenerateSignedCert = (\<lambda>cp kp subj sips names cacp cakp expiration. toyWrite cp kp),
         copy_Copy = toyCopy,
         util_GetServiceClusterIP = (\<lambda>cidr. Inr [10, 96, 0, 1]),
         util_GetAlternateDNS =
           (\<lambda>d. [''kubernetes.default.svc.'' @ d, ''kubernetes'', ''localhost'']),
         net_ParseIP = toyParseIP,
         ip_String = toyIPString,
         sha1_Sum = (\<lambda>bs. push_bit 128 (of_nat (length bs))),
         oci_DaemonHost = (\<lambda>r. ''127.0.0.1''),
         oci_DefaultBindIPV4 = ''127.0.0.1'',
         ControlPlaneAlias = ''control-plane.minikube.internal'',
         KubeadmYamlPath = ''/var/tmp/minikube/kubeadm.yaml'',
         MiniPath = ''/home/u/.minikube'',
         CACert = ''/home/u/.minikube/ca.crt'',
         Profile = (\<lambda>n. ''/home/u/.minikube/profiles/'' @ n),
         ClientCert = (\<lambda>n. ''/home/u/.minikube/profiles/'' @ n @ ''/client.crt''),
         ClientKey = (\<lambda>n. ''/home/u/.minikube/profiles/'' @ n @ ''/client.key''),
         GuestPersistentDir = ''/var/lib/minikube'',
         GuestCertAuthDir = ''/usr/share/ca-certificates'',
         GuestCertStoreDir = ''/etc/ssl/certs'',
         WalkVisits = (\<lambda>root. []),
         IsNotExist = (\<lambda>e. False)\<rparr>"

text \<open>The same host with a remote side on which every command fails.\<close>

definition E_unreachable :: env where
  "E_unreachable = E0\<lparr>RunCmd := (\<lambda>h argv. (noOutput, Some (New ''exit status 1'')))\<rparr>"

text \<open>The same host with a remote side whose certificates have all expired.\<close>

definition E_expired :: env where
  "E_expired =
     E0\<lparr>RunCmd := (\<lambda>h argv. if take 1 argv = [''cat'']
                             then (\<lparr>Stdout = ''Cold;'', Stderr = []\<rparr>, None)
                             else toyRun h argv)\<rparr>"

definition emptyWorld :: world where
  "emptyWorld = \<lparr>fs = Map.empty, unremovable = (\<lambda>p. False), ticks = 0, cmds = [], calls = []\<rparr>"

definition withFiles :: "(path \<times> local_file) list \<Rightarrow> world" where
  "withFiles fl = emptyWorld\<lparr>fs := map_of fl\<rparr>"

definition cc0 :: ClusterConfig where
  "cc0 = \<lparr>KubernetesConfig =
            \<lparr>KubernetesVersion = ''v1.28.3'', ClusterName = ''minikube'',
             APIServerName = ''minikubeCA'', APIServerNames = [], APIServerIPs = [],
             DNSDomain = ''cluster.local'', ContainerRuntime = ''docker'',
             ServiceCIDR = ''10.96.0.0/12''\<rparr>,
          CertExpiration = 94608000000000000\<rparr>"

text \<open>A host on which the lock cannot be taken, and one on which CA generation fails.\<close>

definition E_locked :: env where
  "E_locked = E0\<lparr>mutex_Acquire := (\<lambda>s. Some (New ''timeout acquiring mutex''))\<rparr>"

definition E_noCA :: env where
  "E_noCA = E0\<lparr>util_GenerateCACert := (\<lambda>cp kp subj f. (Some (New ''rsa: key too small''), f))\<rparr>"

text \<open>
  A control-plane node, a worker, and a profile directory holding a fresh pair for each of
  the three leaf certificates (the API-server pair under its fingerprint suffix).
\<close>

definition n0 :: Node where
  "n0 = \<lparr>IP = ''192.168.49.2'', ControlPlane = True\<rparr>"

definition worker0 :: Node where
  "worker0 = \<lparr>IP = ''192.168.49.3'', ControlPlane = False\<rparr>"

definition cachedProfile :: world where
  "cachedProfile = withFiles
     [(''/home/u/.minikube/profiles/minikube/client.crt'', File True ''Cfresh;''),
      (''/home/u/.minikube/profiles/minikube/client.key'', File True ''Kkey;''),
      (''/home/u/.minikube/profiles/minikube/apiserver.crt.0000008e'', File True ''Cfresh;''),
      (''/home/u/.minikube/profiles/minikube/apiserver.key.0000008e'', File True ''Kkey;''),
      (''/home/u/.minikube/profiles/minikube/proxy-client.crt'', File True ''Cfresh;''),
      (''/home/u/.minikube/profiles/minikube/proxy-client.key'', File True ''Kkey;'')]"




text \<open>A remote side without the \<open>openssl\<close> binary, and two collected certificates.\<close>

definition E_noOpenssl :: env where
  "E_noOpenssl =
     E0\<lparr>RunCmd := (\<lambda>h argv. if take 1 argv = [''openssl'']
                             then (noOutput, Some (New ''executable file not found''))
                             else toyRun h argv)\<rparr>"

definition caCerts0 :: "(path \<times> path) list" where
  "caCerts0 =
     [(''/home/u/.minikube/ca.crt'', ''/usr/share/ca-certificates/minikubeCA.pem''),
      (''/home/u/.minikube/certs/corp.crt'', ''/usr/share/ca-certificates/corp.pem'')]"

text \<open>
  A host whose \<open>certs\<close> directory holds five files and a subdirectory, and whose second
  scanned directory does not exist. Each file but \<open>tiny.crt\<close> is one toy certificate block
  of 32 bytes.
\<close>

definition pem32 :: bytes where
  "pem32 = ''Cfresh;-------------------------''"

definition certsVisits :: "visit list" where
  "certsVisits =
     [(''/home/u/.minikube/certs'', Some \<lparr>IsDir = True, Size = 4096\<rparr>, None),
      (''/home/u/.minikube/certs/X.CRT'', Some \<lparr>IsDir = False, Size = 32\<rparr>, None),
      (''/home/u/.minikube/certs/ca.pem'', Some \<lparr>IsDir = False, Size = 32\<rparr>, None),
      (''/home/u/.minikube/certs/cert.pem'', Some \<lparr>IsDir = False, Size = 32\<rparr>, None),
      (''/home/u/.minikube/certs/corp.crt'', Some \<lparr>IsDir = False, Size = 32\<rparr>, None),
      (''/home/u/.minikube/certs/tiny.crt'', Some \<lparr>IsDir = False, Size = 10\<rparr>, None)]"

definition E_certs :: env where
  "E_certs =
     E0\<lparr>WalkVisits := (\<lambda>root. if root = ''/home/u/.minikube/certs'' then certsVisits
                                else [(root, None, Some (PathError ''lstat'' root))]),
        IsNotExist := (\<lambda>e. case e of PathError op p \<Rightarrow> True | _ \<Rightarrow> False)\<rparr>"

definition certsWorld :: world where
  "certsWorld = withFiles
     [(''/home/u/.minikube/certs/X.CRT'', File True pem32),
      (''/home/u/.minikube/certs/ca.pem'', File True pem32),
      (''/home/u/.minikube/certs/cert.pem'', File True pem32),
      (''/home/u/.minikube/certs/corp.crt'', File True pem32),
      (''/home/u/.minikube/certs/tiny.crt'', File True ''Cfresh;---'')]"

text \<open>
  A pair in a directory the caller may not write: the certificate cannot be read, and
  neither file can be removed.
\<close>

definition stuckPair :: world where
  "stuckPair =
     (withFiles [(''/p/client.crt'', File False ''Cfresh;''),
                 (''/p/client.key'', File True ''Kkey;'')])\<lparr>unremovable := (\<lambda>p. True)\<rparr>"


section \<open>Properties\<close>

lemmas fs_defs = canRead_def ReadFile_def Remove_def removePair_def Now_def logEvent_def

lemmas toy_defs = E0_def E_unreachable_def E_expired_def noOutput_def toyRun_def toyDecode_def
  toyBlock_def toyParse_def toyWrite_def toyCopy_def emptyWorld_def withFiles_def

text \<open>The events one call appends.\<close>

lemma isValid_calls:
  "calls (snd (isValid E cp kp w)) = calls w @ [CheckedPair cp kp]"
  by (auto simp: isValid_def fs_defs Let_def
      split: option.splits sum.splits prod.splits)

lemma GenerateCACert_calls:
  "calls (snd (GenerateCACert E cp kp subj w)) = calls w @ [GeneratedCA cp kp subj]"
  by (simp add: GenerateCACert_def logEvent_def split: prod.splits)




subsection \<open>The validity checker\<close>

text \<open>
  C1, as stated, fails on the code in two places. With the key file missing and the
  certificate present, \<open>isValid\<close> answers false and the certificate file is still there
  afterwards: the first check returns before any removal. And a certificate whose
  \<open>NotAfter\<close> equals the current time (not strictly after it) is accepted, since the code
  rejects only \<open>NotAfter\<close> before now.
\<close>

theorem isValid_counterexample:
  "fst (isValid E0 ''/p/client.crt'' ''/p/client.key''
          (withFiles [(''/p/client.crt'', File True ''Cfresh;'')])) = False
   \<and> fs (snd (isValid E0 ''/p/client.crt'' ''/p/client.key''
          (withFiles [(''/p/client.crt'', File True ''Cfresh;'')]))) ''/p/client.crt''
       = Some (File True ''Cfresh;'')
   \<and> ParseCertificate E0 ''edge'' = Some (Certificate 1000)
   \<and> timeNow E0 0 = 1000
   \<and> fst (isValid E0 ''/p/client.crt'' ''/p/client.key''
          (withFiles [(''/p/client.crt'', File True ''Cedge;''),
                      (''/p/client.key'', File True ''Kkey;'')])) = True"
  by (simp add: isValid_def fs_defs toy_defs)

text \<open>
  C1, amended. For every pair of paths: when the key file is unreadable, \<open>isValid\<close> returns
  false and leaves the files as they are. When the key is readable and the certificate file
  is unreadable, fails to decode as PEM, fails to parse as X.509 or has \<open>NotAfter\<close> strictly
  before the current time, it returns false after calling \<open>os.Remove\<close> on both paths and
  discarding the errors: afterwards each of the two files is absent unless its removal
  failed, a file whose removal failed is as before, and no other file is touched. It returns
  true exactly when the key is readable and the certificate reads, decodes, parses and has
  \<open>NotAfter\<close> not before the current time, and then the files are untouched.
\<close>

theorem isValid_amended:
  "(\<not> canRead kp w \<longrightarrow>
      fst (isValid E cp kp w) = False \<and> fs (snd (isValid E cp kp w)) = fs w)
   \<and> (canRead kp w \<and>
       \<not> (\<exists>certFile certData rest cert.
            ReadFile cp w = Inr certFile \<and> pemDecode E certFile = Some (certData, rest) \<and>
            ParseCertificate E (Bytes certData) = Some cert \<and>
            \<not> NotAfter cert < timeNow E (ticks w)) \<longrightarrow>
      fst (isValid E cp kp w) = False \<and>
      (\<forall>p. fs (snd (isValid E cp kp w)) p =
             (if (p = cp \<or> p = kp) \<and> \<not> unremovable w p then None else fs w p)))
   \<and> (fst (isValid E cp kp w) = True \<longleftrightarrow>
        canRead kp w \<and>
        (\<exists>certFile certData rest cert.
            ReadFile cp w = Inr certFile \<and> pemDecode E certFile = Some (certData, rest) \<and>
            ParseCertificate E (Bytes certData) = Some cert \<and>
            \<not> NotAfter cert < timeNow E (ticks w)))
   \<and> (fst (isValid E cp kp w) = True \<longrightarrow> fs (snd (isValid E cp kp w)) = fs w)"
proof -
  have rm: "fs (removePair cp kp v) p =
              (if (p = cp \<or> p = kp) \<and> \<not> unremovable v p then None else fs v p)"
    for v :: world and p
    by (auto simp: removePair_def Remove_def Let_def split: option.splits)
  have rmA: "fs (removePair cp kp (v\<lparr>calls := c\<rparr>)) p =
              (if (p = cp \<or> p = kp) \<and> \<not> unremovable v p then None else fs v p)"
    for v :: world and p c
    using rm[of "v\<lparr>calls := c\<rparr>" p] by simp
  have rmB: "fs (removePair cp kp (v\<lparr>ticks := t, calls := c\<rparr>)) p =
              (if (p = cp \<or> p = kp) \<and> \<not> unremovable v p then None else fs v p)"
    for v :: world and p c t
    using rm[of "v\<lparr>ticks := t, calls := c\<rparr>" p] by simp
  have rmC: "fs (removePair cp kp (v\<lparr>calls := c, ticks := t\<rparr>)) p =
              (if (p = cp \<or> p = kp) \<and> \<not> unremovable v p then None else fs v p)"
    for v :: world and p c t
    using rm[of "v\<lparr>calls := c, ticks := t\<rparr>" p] by simp
  show ?thesis
    by (auto simp: isValid_def canRead_def ReadFile_def Now_def logEvent_def Let_def
          rm rmA rmB rmC
        split: option.splits sum.splits prod.splits local_file.splits)
qed

theorem isValid_amended_witness:
  "fs (snd (isValid E0 ''/p/client.crt'' ''/p/client.key''
          (withFiles [(''/p/client.crt'', File True ''Cfresh;'')])))
     = fs (withFiles [(''/p/client.crt'', File True ''Cfresh;'')])
   \<and> fs (snd (isValid E0 ''/p/client.crt'' ''/p/client.key''
          (withFiles [(''/p/client.crt'', File True ''Cold;''),
                      (''/p/client.key'', File True ''Kkey;'')]))) ''/p/client.crt'' = None
   \<and> fs (snd (isValid E0 ''/p/client.crt'' ''/p/client.key''
          (withFiles [(''/p/client.crt'', File True ''Cold;''),
                      (''/p/client.key'', File True ''Kkey;'')]))) ''/p/client.key'' = None
   \<and> fst (isValid E0 ''/p/client.crt'' ''/p/client.key'' stuckPair) = False
   \<and> fs (snd (isValid E0 ''/p/client.crt'' ''/p/client.key'' stuckPair)) ''/p/client.crt''
       = Some (File False ''Cfresh;'')
   \<and> fs (snd (isValid E0 ''/p/client.crt'' ''/p/client.key'' stuckPair)) ''/p/client.key''
       = Some (File True ''Kkey;'')
   \<and> fs (snd (isValid E0 ''/p/client.crt'' ''/p/client.key''
          (withFiles [(''/p/client.crt'', File True ''Cfresh;''),
                      (''/p/client.key'', File True ''Kkey;'')])))
     = fs (withFiles [(''/p/client.crt'', File True ''Cfresh;''),
                      (''/p/client.key'', File True ''Kkey;'')])"
proof -
  let ?crt = "''/p/client.crt''" and ?key = "''/p/client.key''"
  let ?stale = "withFiles [(?crt, File True ''Cold;''), (?key, File True ''Kkey;'')]"
  let ?good = "withFiles [(?crt, File True ''Cfresh;''), (?key, File True ''Kkey;'')]"
  have noKey: "\<not> canRead ?key (withFiles [(?crt, File True ''Cfresh;'')])"
    by (simp add: fs_defs toy_defs)
  have stale: "canRead ?key ?stale
     \<and> \<not> (\<exists>certFile certData rest cert.
            ReadFile ?crt ?stale = Inr certFile \<and>
            pemDecode E0 certFile = Some (certData, rest) \<and>
            ParseCertificate E0 (Bytes certData) = Some cert \<and>
            \<not> NotAfter cert < timeNow E0 (ticks ?stale))"
    by (auto simp: fs_defs toy_defs)
  have stuck: "canRead ?key stuckPair
     \<and> \<not> (\<exists>certFile certData rest cert.
            ReadFile ?crt stuckPair = Inr certFile \<and>
            pemDecode E0 certFile = Some (certData, rest) \<and>
            ParseCertificate E0 (Bytes certData) = Some cert \<and>
            \<not> NotAfter cert < timeNow E0 (ticks stuckPair))"
    by (auto simp: fs_defs toy_defs stuckPair_def)
  have facts: "\<not> unremovable ?stale ?crt" "\<not> unremovable ?stale ?key"
    "unremovable stuckPair ?crt" "unremovable stuckPair ?key"
    "fs stuckPair ?crt = Some (File False ''Cfresh;'')"
    "fs stuckPair ?key = Some (File True ''Kkey;'')"
    by (simp_all add: toy_defs stuckPair_def)
  have fresh: "fst (isValid E0 ?crt ?key ?good) = True"
    by (simp add: isValid_def fs_defs toy_defs)
  have a: "fs (snd (isValid E0 ?crt ?key (withFiles [(?crt, File True ''Cfresh;'')])))
            = fs (withFiles [(?crt, File True ''Cfresh;'')])"
    using isValid_amended[of ?key "withFiles [(?crt, File True ''Cfresh;'')]" E0 ?crt] noKey
    by blast
  have b: "\<forall>p. fs (snd (isValid E0 ?crt ?key ?stale)) p =
             (if (p = ?crt \<or> p = ?key) \<and> \<not> unremovable ?stale p then None else fs ?stale p)"
    using isValid_amended[of ?key ?stale E0 ?crt] stale by blast
  have c: "fst (isValid E0 ?crt ?key stuckPair) = False
       \<and> (\<forall>p. fs (snd (isValid E0 ?crt ?key stuckPair)) p =
             (if (p = ?crt \<or> p = ?key) \<and> \<not> unremovable stuckPair p then None
              else fs stuckPair p))"
    using isValid_amended[of ?key stuckPair E0 ?crt] stuck by blast
  have d: "fs (snd (isValid E0 ?crt ?key ?good)) = fs ?good"
    using isValid_amended[of ?key ?good E0 ?crt] fresh by blast
  have b1: "fs (snd (isValid E0 ?crt ?key ?stale)) ?crt = None"
    "fs (snd (isValid E0 ?crt ?key ?stale)) ?key = None"
    using b facts(1,2) by simp_all
  have c1: "fs (snd (isValid E0 ?crt ?key stuckPair)) ?crt = Some (File False ''Cfresh;'')"
    "fs (snd (isValid E0 ?crt ?key stuckPair)) ?key = Some (File True ''Kkey;'')"
    using c facts(3-6) by simp_all
  show ?thesis
    using a b1 c c1 d by blast
qed

subsection \<open>The remote validity check\<close>

text \<open>
  C5. For every remote certificate path: when the remote read (\<open>cat\<close>) fails,
  \<open>isKubeadmCertValid\<close> returns true; it returns false exactly when the read succeeded and
  the bytes fail to decode as PEM, fail to parse as X.509, or carry a \<open>NotAfter\<close> before the
  current time.
\<close>

theorem isKubeadmCertValid_outcomes:
  "(snd (RunCmd E (cmds w) [''cat'', p]) \<noteq> None \<longrightarrow> fst (isKubeadmCertValid E p w) = True)
   \<and> (fst (isKubeadmCertValid E p w) = False \<longleftrightarrow>
        (\<exists>rr. RunCmd E (cmds w) [''cat'', p] = (rr, None) \<and>
          (pemDecode E (Stdout rr) = None \<or>
           (\<exists>certData rest. pemDecode E (Stdout rr) = Some (certData, rest) \<and>
              (ParseCertificate E (Bytes certData) = None \<or>
               (\<exists>cert. ParseCertificate E (Bytes certData) = Some cert \<and>
                  NotAfter cert < timeNow E (ticks w)))))))"
  by (auto simp: isKubeadmCertValid_def runCmd_def fs_defs Let_def
      split: option.splits prod.splits)

theorem isKubeadmCertValid_outcomes_witness:
  "fst (isKubeadmCertValid E_unreachable ''/var/lib/minikube/certs/etcd/server.crt'' emptyWorld)
     = True
   \<and> fst (isKubeadmCertValid E_expired ''/var/lib/minikube/certs/etcd/server.crt'' emptyWorld)
     = False"
proof -
  let ?p = "''/var/lib/minikube/certs/etcd/server.crt''"
  have unread: "snd (RunCmd E_unreachable (cmds emptyWorld) [''cat'', ?p]) \<noteq> None"
    by (simp add: toy_defs)
  have old: "RunCmd E_expired (cmds emptyWorld) [''cat'', ?p] = (\<lparr>Stdout = ''Cold;'', Stderr = []\<rparr>, None)
     \<and> pemDecode E_expired ''Cold;'' = Some (Block ''CERTIFICATE'' ''old'', [])
     \<and> ParseCertificate E_expired ''old'' = Some (Certificate 999)
     \<and> (999::int) < timeNow E_expired (ticks emptyWorld)"
    by (simp add: toy_defs)
  have stale: "\<exists>rr. RunCmd E_expired (cmds emptyWorld) [''cat'', ?p] = (rr, None) \<and>
          (pemDecode E_expired (Stdout rr) = None \<or>
           (\<exists>certData rest. pemDecode E_expired (Stdout rr) = Some (certData, rest) \<and>
              (ParseCertificate E_expired (Bytes certData) = None \<or>
               (\<exists>cert. ParseCertificate E_expired (Bytes certData) = Some cert \<and>
                  NotAfter cert < timeNow E_expired (ticks emptyWorld)))))"
    using old by (intro exI[of _ "\<lparr>Stdout = ''Cold;'', Stderr = []\<rparr>"]) simp
  show ?thesis
    using isKubeadmCertValid_outcomes[of E_unreachable emptyWorld ?p]
      isKubeadmCertValid_outcomes[of E_expired emptyWorld ?p] unread stale
    by blast
qed

subsection \<open>The kubeadm certificate refresher\<close>

lemma isKubeadmCertValid_cmds:
  "cmds (snd (isKubeadmCertValid E p w)) = cmds w @ [[''cat'', p]]"
  by (auto simp: isKubeadmCertValid_def runCmd_def fs_defs Let_def
      split: option.splits prod.splits)

lemma kubeadmLoop_cmds:
  "cmds (snd (kubeadmLoop E cs b w)) = cmds w @ map (\<lambda>c. [''cat'', kubeadmCertPath E c]) cs"
proof (induction cs arbitrary: b w)
  case Nil
  then show ?case by simp
next
  case (Cons c cs)
  obtain valid w1 where v: "isKubeadmCertValid E (kubeadmCertPath E c) w = (valid, w1)"
    by (cases "isKubeadmCertValid E (kubeadmCertPath E c) w")
  have "cmds w1 = cmds w @ [[''cat'', kubeadmCertPath E c]]"
    using isKubeadmCertValid_cmds[of E "kubeadmCertPath E c" w] v by simp
  then show ?case
    using v Cons.IH[of "if \<not> valid then True else b" w1] by simp
qed

lemma kubeadmLoop_world:
  "snd (kubeadmLoop E cs b w) = snd (kubeadmLoop E cs b' w)"
  by (induction cs arbitrary: b b' w) (auto split: prod.splits)

lemma kubeadmLoop_flag:
  "fst (kubeadmLoop E cs b w) =
     (b \<or> (\<exists>i<length cs.
        \<not> fst (isKubeadmCertValid E (kubeadmCertPath E (cs ! i))
                (snd (kubeadmLoop E (take i cs) False w)))))"
proof (induction cs arbitrary: b w)
  case Nil
  then show ?case by simp
next
  case (Cons c cs)
  obtain valid w1 where v: "isKubeadmCertValid E (kubeadmCertPath E c) w = (valid, w1)"
    by (cases "isKubeadmCertValid E (kubeadmCertPath E c) w")
  have step: "\<And>j. snd (kubeadmLoop E (c # take j cs) False w)
                  = snd (kubeadmLoop E (take j cs) False w1)"
    using v kubeadmLoop_world[of E _ _ w1 False] by simp
  show ?case
    using v Cons.IH[of "if \<not> valid then True else b" w1]
    by (simp add: Ex_less_Suc2 step)
qed

text \<open>
  C7, as stated, fails on the code: with all six certificates valid, six remote commands
  are issued all the same, the six \<open>cat\<close> reads the check itself consists of.
\<close>

theorem generateKubeadmCerts_counterexample:
  "list_all (\<lambda>c. fst (isKubeadmCertValid E0 (kubeadmCertPath E0 c) emptyWorld)) kubeadmCerts
   \<and> fst (generateKubeadmCerts E0 cc0 emptyWorld) = None
   \<and> cmds (snd (generateKubeadmCerts E0 cc0 emptyWorld)) =
       [[''cat'', ''/var/lib/minikube/certs/apiserver-etcd-client.crt''],
        [''cat'', ''/var/lib/minikube/certs/apiserver-kubelet-client.crt''],
        [''cat'', ''/var/lib/minikube/certs/etcd/server.crt''],
        [''cat'', ''/var/lib/minikube/certs/etcd/healthcheck-client.crt''],
        [''cat'', ''/var/lib/minikube/certs/etcd/peer.crt''],
        [''cat'', ''/var/lib/minikube/certs/front-proxy-client.crt'']]"
  by code_simp

text \<open>
  C7, amended. The refresher checks exactly six fixed names, a name with prefix \<open>etcd-\<close>
  mapping to a path under \<open>etcd/\<close> with the prefix stripped. The remote commands it issues
  are the six reads, in order, followed by the one renew-all command if and only if at least
  one of the six checks answered invalid (each check taken in the world the checks before it
  left); when all six are valid, nothing but the six reads is issued. The result is an error
  exactly when the renew command was issued and failed.
\<close>

theorem generateKubeadmCerts_amended:
  "length kubeadmCerts = 6
   \<and> map (kubeadmCertPath E) kubeadmCerts =
       [path_Join [GuestPersistentDir E, ''certs'', ''apiserver-etcd-client.crt''],
        path_Join [GuestPersistentDir E, ''certs'', ''apiserver-kubelet-client.crt''],
        path_Join [GuestPersistentDir E, ''certs'', ''etcd'', ''server.crt''],
        path_Join [GuestPersistentDir E, ''certs'', ''etcd'', ''healthcheck-client.crt''],
        path_Join [GuestPersistentDir E, ''certs'', ''etcd'', ''peer.crt''],
        path_Join [GuestPersistentDir E, ''certs'', ''front-proxy-client.crt'']]
   \<and> (let anyInvalid =
            (\<exists>i<6. \<not> fst (isKubeadmCertValid E (kubeadmCertPath E (kubeadmCerts ! i))
                             (snd (kubeadmLoop E (take i kubeadmCerts) False w))));
          reads = map (\<lambda>c. [''cat'', kubeadmCertPath E c]) kubeadmCerts
      in cmds (snd (generateKubeadmCerts E cc w)) =
           cmds w @ reads @ (if anyInvalid then [renewCommand E cc] else [])
         \<and> fst (generateKubeadmCerts E cc w) =
             (if anyInvalid then
                (case snd (RunCmd E (cmds w @ reads) (renewCommand E cc)) of
                   Some e \<Rightarrow> Some (New (''failed to renew kubeadm certs: '' @ Error e))
                 | None \<Rightarrow> None)
              else None))"
proof -
  have six: "length kubeadmCerts = 6"
    by (simp add: kubeadmCerts_def)
  have paths: "map (kubeadmCertPath E) kubeadmCerts =
       [path_Join [GuestPersistentDir E, ''certs'', ''apiserver-etcd-client.crt''],
        path_Join [GuestPersistentDir E, ''certs'', ''apiserver-kubelet-client.crt''],
        path_Join [GuestPersistentDir E, ''certs'', ''etcd'', ''server.crt''],
        path_Join [GuestPersistentDir E, ''certs'', ''etcd'', ''healthcheck-client.crt''],
        path_Join [GuestPersistentDir E, ''certs'', ''etcd'', ''peer.crt''],
        path_Join [GuestPersistentDir E, ''certs'', ''front-proxy-client.crt'']]"
    by (simp add: kubeadmCerts_def kubeadmCertPath_def HasPrefix_def TrimPrefix_def)
  obtain needs w1 where loop: "kubeadmLoop E kubeadmCerts False w = (needs, w1)"
    by (cases "kubeadmLoop E kubeadmCerts False w")
  have needs: "needs =
      (\<exists>i<6. \<not> fst (isKubeadmCertValid E (kubeadmCertPath E (kubeadmCerts ! i))
                       (snd (kubeadmLoop E (take i kubeadmCerts) False w))))"
    using kubeadmLoop_flag[of E kubeadmCerts False w] loop six by simp
  have w1: "cmds w1 = cmds w @ map (\<lambda>c. [''cat'', kubeadmCertPath E c]) kubeadmCerts"
    using kubeadmLoop_cmds[of E kubeadmCerts False w] loop by simp
  have run: "cmds (snd (generateKubeadmCerts E cc w)) =
           cmds w @ map (\<lambda>c. [''cat'', kubeadmCertPath E c]) kubeadmCerts
             @ (if needs then [renewCommand E cc] else [])"
    using loop w1
    by (simp add: generateKubeadmCerts_def runCmd_def split: prod.splits option.splits)
  have res: "fst (generateKubeadmCerts E cc w) =
             (if needs then
                (case snd (RunCmd E (cmds w @ map (\<lambda>c. [''cat'', kubeadmCertPath E c]) kubeadmCerts)
                            (renewCommand E cc)) of
                   Some e \<Rightarrow> Some (New (''failed to renew kubeadm certs: '' @ Error e))
                 | None \<Rightarrow> None)
              else None)"
    using loop w1
    by (simp add: generateKubeadmCerts_def runCmd_def split: prod.splits option.splits)
  show ?thesis
    unfolding Let_def using six paths run res needs by simp
qed

theorem generateKubeadmCerts_amended_witness:
  "cmds (snd (generateKubeadmCerts E_expired cc0 emptyWorld)) =
     map (\<lambda>c. [''cat'', kubeadmCertPath E_expired c]) kubeadmCerts @ [renewCommand E_expired cc0]
   \<and> cmds (snd (generateKubeadmCerts E_unreachable cc0 emptyWorld)) =
     map (\<lambda>c. [''cat'', kubeadmCertPath E_unreachable c]) kubeadmCerts"
proof -
  have "\<not> fst (isKubeadmCertValid E_expired (kubeadmCertPath E_expired (kubeadmCerts ! 0))
                 (snd (kubeadmLoop E_expired (take 0 kubeadmCerts) False emptyWorld)))"
    by (simp add: isKubeadmCertValid_def runCmd_def fs_defs toy_defs)
  then have some: "\<exists>i<6. \<not> fst (isKubeadmCertValid E_expired (kubeadmCertPath E_expired (kubeadmCerts ! i))
                 (snd (kubeadmLoop E_expired (take i kubeadmCerts) False emptyWorld)))"
    by (intro exI[of _ 0]) simp
  have "\<And>p w. fst (isKubeadmCertValid E_unreachable p w)"
    by (simp add: isKubeadmCertValid_def runCmd_def fs_defs toy_defs)
  then have none: "\<not> (\<exists>i<6. \<not> fst (isKubeadmCertValid E_unreachable
                 (kubeadmCertPath E_unreachable (kubeadmCerts ! i))
                 (snd (kubeadmLoop E_unreachable (take i kubeadmCerts) False emptyWorld))))"
    by simp
  have e: "cmds emptyWorld = []"
    by (simp add: emptyWorld_def)
  show ?thesis
    using generateKubeadmCerts_amended[of E_expired emptyWorld cc0]
      generateKubeadmCerts_amended[of E_unreachable emptyWorld cc0] some none e
    by (simp add: Let_def)
qed

subsection \<open>The shared CA provisioner and its lock\<close>

lemma caLoop_calls:
  "\<exists>evs. calls (snd (caLoop E cas b w)) = calls w @ evs \<and> list_all isCAWork evs"
proof (induction cas arbitrary: b w)
  case Nil
  then show ?case by simp
next
  case (Cons ca cas)
  obtain valid w1 where v: "isValid E (ca_certPath ca) (ca_keyPath ca) w = (valid, w1)"
    by (cases "isValid E (ca_certPath ca) (ca_keyPath ca) w")
  have c1: "calls w1 = calls w @ [CheckedPair (ca_certPath ca) (ca_keyPath ca)]"
    using isValid_calls[of E "ca_certPath ca" "ca_keyPath ca" w] v by simp
  show ?case
  proof (cases valid)
    case True
    obtain evs where "calls (snd (caLoop E cas b w1)) = calls w1 @ evs" "list_all isCAWork evs"
      using Cons.IH[of b w1] by blast
    then show ?thesis
      using v True c1
      by (intro exI[of _ "CheckedPair (ca_certPath ca) (ca_keyPath ca) # evs"]) simp
  next
    case False
    obtain err w2 where g:
      "GenerateCACert E (ca_certPath ca) (ca_keyPath ca) (ca_subject ca) w1 = (err, w2)"
      by (cases "GenerateCACert E (ca_certPath ca) (ca_keyPath ca) (ca_subject ca) w1")
    have c2: "calls w2 = calls w1 @ [GeneratedCA (ca_certPath ca) (ca_keyPath ca) (ca_subject ca)]"
      using GenerateCACert_calls[of E "ca_certPath ca" "ca_keyPath ca" "ca_subject ca" w1] g
      by simp
    show ?thesis
    proof (cases err)
      case None
      obtain evs where "calls (snd (caLoop E cas True w2)) = calls w2 @ evs" "list_all isCAWork evs"
        using Cons.IH[of True w2] by blast
      then show ?thesis
        using v False g None c1 c2
        by (intro exI[of _ "CheckedPair (ca_certPath ca) (ca_keyPath ca)
              # GeneratedCA (ca_certPath ca) (ca_keyPath ca) (ca_subject ca) # evs"]) simp
    next
      case (Some e)
      then show ?thesis
        using v False g c1 c2
        by (intro exI[of _ "[CheckedPair (ca_certPath ca) (ca_keyPath ca),
              GeneratedCA (ca_certPath ca) (ca_keyPath ca) (ca_subject ca)]"]) simp
    qed
  qed
qed

text \<open>
  C8. When acquiring the CA-store lock fails, \<open>generateSharedCACerts\<close> returns the error
  wrapped with the lock-acquisition message and the flag false, and the world is exactly as
  before: no validity check, no generation, no file touched. When acquiring succeeds, the
  events of the call are the acquisition, then CA work only (validity checks and CA
  generations), then the release, last: whatever the loop returns, error or not.
\<close>

theorem generateSharedCACerts_lock:
  "(case mutex_Acquire E (caLockSpec E) of
      Some e \<Rightarrow>
        generateSharedCACerts E w =
          ((sharedCACerts E, False,
            Some (Wrap e (''unable to acquire lock for shared ca certs ''
                          @ Sprintf_Spec E (caLockSpec E)))), w)
    | None \<Rightarrow>
        (\<exists>evs. calls (snd (generateSharedCACerts E w))
                = calls w @ [LockAcquired] @ evs @ [LockReleased]
              \<and> list_all isCAWork evs))"
proof (cases "mutex_Acquire E (caLockSpec E)")
  case None
  obtain evs where
    "calls (snd (caLoop E (caCertSpecs (sharedCACerts E)) False (logEvent LockAcquired w)))
       = calls (logEvent LockAcquired w) @ evs" and "list_all isCAWork evs"
    using caLoop_calls[of E "caCertSpecs (sharedCACerts E)" False "logEvent LockAcquired w"]
    by blast
  then have "calls (snd (generateSharedCACerts E w)) = calls w @ [LockAcquired] @ evs @ [LockReleased]"
    using None by (simp add: generateSharedCACerts_def logEvent_def Let_def split_beta)
  then show ?thesis
    using None \<open>list_all isCAWork evs\<close> by auto
next
  case (Some e)
  then show ?thesis
    by (simp add: generateSharedCACerts_def)
qed

theorem generateSharedCACerts_lock_witness:
  "generateSharedCACerts E_locked emptyWorld =
     ((sharedCACerts E_locked, False,
       Some (Wrap (New ''timeout acquiring mutex'')
               ''unable to acquire lock for shared ca certs /home/u/.minikube/ca-certs'')),
      emptyWorld)
   \<and> fst (generateSharedCACerts E_noCA emptyWorld) =
       (sharedCACerts E_noCA, False, Some (Wrap (New ''rsa: key too small'') ''generate ca cert''))
   \<and> calls (snd (generateSharedCACerts E_noCA emptyWorld)) =
       [LockAcquired,
        CheckedPair ''/home/u/.minikube/ca.crt'' ''/home/u/.minikube/ca.key'',
        GeneratedCA ''/home/u/.minikube/ca.crt'' ''/home/u/.minikube/ca.key'' ''minikubeCA'',
        LockReleased]
   \<and> snd (fst (generateSharedCACerts E0 emptyWorld)) = (True, None)
   \<and> calls (snd (generateSharedCACerts E0 emptyWorld)) =
       [LockAcquired,
        CheckedPair ''/home/u/.minikube/ca.crt'' ''/home/u/.minikube/ca.key'',
        GeneratedCA ''/home/u/.minikube/ca.crt'' ''/home/u/.minikube/ca.key'' ''minikubeCA'',
        CheckedPair ''/home/u/.minikube/proxy-client-ca.crt''
          ''/home/u/.minikube/proxy-client-ca.key'',
        GeneratedCA ''/home/u/.minikube/proxy-client-ca.crt''
          ''/home/u/.minikube/proxy-client-ca.key'' ''proxyClientCA'',
        LockReleased]"
proof -
  have locked: "mutex_Acquire E_locked (caLockSpec E_locked) = Some (New ''timeout acquiring mutex'')"
    by (simp add: E_locked_def E0_def)
  have msg: "Sprintf_Spec E_locked (caLockSpec E_locked) = ''/home/u/.minikube/ca-certs''"
    by code_simp
  have run1: "fst (generateSharedCACerts E_noCA emptyWorld) =
       (sharedCACerts E_noCA, False, Some (Wrap (New ''rsa: key too small'') ''generate ca cert''))
   \<and> calls (snd (generateSharedCACerts E_noCA emptyWorld)) =
       [LockAcquired,
        CheckedPair ''/home/u/.minikube/ca.crt'' ''/home/u/.minikube/ca.key'',
        GeneratedCA ''/home/u/.minikube/ca.crt'' ''/home/u/.minikube/ca.key'' ''minikubeCA'',
        LockReleased]"
    by code_simp
  have run2: "snd (fst (generateSharedCACerts E0 emptyWorld)) = (True, None)
   \<and> calls (snd (generateSharedCACerts E0 emptyWorld)) =
       [LockAcquired,
        CheckedPair ''/home/u/.minikube/ca.crt'' ''/home/u/.minikube/ca.key'',
        GeneratedCA ''/home/u/.minikube/ca.crt'' ''/home/u/.minikube/ca.key'' ''minikubeCA'',
        CheckedPair ''/home/u/.minikube/proxy-client-ca.crt''
          ''/home/u/.minikube/proxy-client-ca.key'',
        GeneratedCA ''/home/u/.minikube/proxy-client-ca.crt''
          ''/home/u/.minikube/proxy-client-ca.key'' ''proxyClientCA'',
        LockReleased]"
    by code_simp
  show ?thesis
    using generateSharedCACerts_lock[of E_locked emptyWorld] locked msg run1 run2
    by simp
qed





lemma leafStep_unfold:
  "leafStep E cfg regen spec xfer w =
     (let cp = fst (effectivePaths spec);
          kp = snd (effectivePaths spec);
          xfer' = xfer @ (if subject spec \<noteq> ''minikube-user''
                          then [certPath spec, keyPath spec] else [])
      in if \<not> regen \<and> fst (isValid E cp kp w) then ((xfer', None), snd (isValid E cp kp w))
         else
           let w1 = (if regen then w else snd (isValid E cp kp w))
           in ((xfer', fst (regenerate E cfg spec cp kp w1)),
               snd (regenerate E cfg spec cp kp w1)))"
  by (simp add: leafStep_def Let_def split_beta)






text \<open>In the concrete environment no step of the leaf provisioner fails.\<close>

lemma regenerate_E0: "fst (regenerate E0 cfg spec cp kp w) = None"
  by (simp add: regenerate_def promoteHashed_def GenerateSignedCert_def Copy_def logEvent_def
      E0_def toyWrite_def toyCopy_def Let_def split_beta)

lemma leafStep_E0: "snd (fst (leafStep E0 cfg regen spec xfer w)) = None"
  by (simp add: leafStep_unfold Let_def regenerate_E0)

lemma leafLoop_E0: "snd (fst (leafLoop E0 cfg regen specs xfer w)) = None"
proof (induction specs arbitrary: xfer w)
  case Nil
  then show ?case by simp
next
  case (Cons spec specs)
  obtain xfer1 err w1 where s: "leafStep E0 cfg regen spec xfer w = ((xfer1, err), w1)"
    by (cases "leafStep E0 cfg regen spec xfer w") auto
  then have "err = None"
    using leafStep_E0[of cfg regen spec xfer w] by simp
  then show ?case
    using s Cons.IH[of xfer1 w1] by simp
qed

lemma generateProfileCerts_E0:
  "snd (fst (generateProfileCerts E0 cfg n ccs regen w)) = None"
proof -
  have "util_GetServiceClusterIP E0 (ServiceCIDR (KubernetesConfig cfg)) = Inr [10, 96, 0, 1]"
    by (simp add: E0_def)
  then show ?thesis
    by (simp add: generateProfileCerts_def Let_def split_beta leafLoop_E0)
qed

subsection \<open>The SAN fingerprint\<close>

lemma sanHash_length: "length (sanHash E names sips) = 8"
  by (simp add: sanHash_def Sprintf_x_def)

text \<open>
  C4. The fingerprint is the first 8 hexadecimal characters of the SHA-1 digest of the
  \<open>/\<close>-joined, sorted list of the alternate names and the string-formatted IPs: always 8
  characters, and the same for two inputs that list the same names and addresses in a
  different order (the combined lists are equal as multisets; reordering the names and
  the IPs separately is the special case), in particular for two inputs without repetitions
  that are equal as sets.
\<close>

theorem sanHash_order_independent:
  "sanHash E names sips =
     take 8 (Sprintf_x (sha1_Sum E (Join (sort (names @ map (ip_String E) sips)) ''/'')))
   \<and> length (sanHash E names sips) = 8
   \<and> (mset (names @ map (ip_String E) sips) = mset (names' @ map (ip_String E) sips')
        \<longrightarrow> sanHash E names sips = sanHash E names' sips')
   \<and> (distinct (names @ map (ip_String E) sips) \<and> distinct (names' @ map (ip_String E) sips')
        \<and> set (names @ map (ip_String E) sips) = set (names' @ map (ip_String E) sips')
        \<longrightarrow> sanHash E names sips = sanHash E names' sips')"
proof -
  have perm: "sort (names @ map (ip_String E) sips) = sort (names' @ map (ip_String E) sips')"
    if "mset (names @ map (ip_String E) sips) = mset (names' @ map (ip_String E) sips')"
    using that by (intro properties_for_sort) simp_all
  have "mset (names @ map (ip_String E) sips) = mset (names' @ map (ip_String E) sips')"
    if "distinct (names @ map (ip_String E) sips)" "distinct (names' @ map (ip_String E) sips')"
      "set (names @ map (ip_String E) sips) = set (names' @ map (ip_String E) sips')"
    using that set_eq_iff_mset_eq_distinct by blast
  then show ?thesis
    using perm by (simp add: sanHash_length) (simp add: sanHash_def hashInput_def)
qed

theorem sanHash_order_independent_witness:
  "sanHash E0 [''minikubeCA'', ''localhost''] [[192, 168, 49, 2], [10, 0, 0, 1]] = ''0000002a''
   \<and> sanHash E0 [''localhost'', ''minikubeCA''] [[10, 0, 0, 1], [192, 168, 49, 2]] = ''0000002a''"
proof -
  have m: "mset ([''minikubeCA'', ''localhost''] @ map (ip_String E0) [[192, 168, 49, 2], [10, 0, 0, 1]])
      = mset ([''localhost'', ''minikubeCA''] @ map (ip_String E0) [[10, 0, 0, 1], [192, 168, 49, 2]])"
    by (simp add: E0_def toyIPString_def)
  have v: "sanHash E0 [''minikubeCA'', ''localhost''] [[192, 168, 49, 2], [10, 0, 0, 1]] = ''0000002a''"
    by code_simp
  have eq: "sanHash E0 [''minikubeCA'', ''localhost''] [[192, 168, 49, 2], [10, 0, 0, 1]]
      = sanHash E0 [''localhost'', ''minikubeCA''] [[10, 0, 0, 1], [192, 168, 49, 2]]"
    using sanHash_order_independent[of E0 "[''minikubeCA'', ''localhost'']"
        "[[192, 168, 49, 2], [10, 0, 0, 1]]" "[''localhost'', ''minikubeCA'']"
        "[[10, 0, 0, 1], [192, 168, 49, 2]]", THEN conjunct2, THEN conjunct2, THEN conjunct1,
        THEN mp, OF m] .
  show ?thesis
    using v eq by simp
qed

subsection \<open>The leaf certificate provisioner\<close>

lemma leafStep_xfer:
  "fst (fst (leafStep E cfg regen spec xfer w)) =
     xfer @ (if subject spec \<noteq> ''minikube-user'' then [certPath spec, keyPath spec] else [])"
  by (simp add: leafStep_unfold Let_def)

lemma leafLoop_xfer:
  "leafLoop E cfg regen specs xfer w = ((xfer', None), w') \<Longrightarrow>
     xfer' = xfer @ concat (map (\<lambda>spec. if subject spec \<noteq> ''minikube-user''
                                        then [certPath spec, keyPath spec] else []) specs)"
proof (induction specs arbitrary: xfer w)
  case Nil
  then show ?case by simp
next
  case (Cons spec specs)
  obtain xfer1 err w1 where s: "leafStep E cfg regen spec xfer w = ((xfer1, err), w1)"
    by (cases "leafStep E cfg regen spec xfer w") auto
  have x1: "xfer1 = xfer @ (if subject spec \<noteq> ''minikube-user''
                            then [certPath spec, keyPath spec] else [])"
    using leafStep_xfer[of E cfg regen spec xfer w] s by simp
  from Cons.prems s have "err = None" and "leafLoop E cfg regen specs xfer1 w1 = ((xfer', None), w')"
    by (auto split: option.splits)
  then show ?case
    using Cons.IH[of xfer1 w1] x1 by simp
qed


text \<open>
  C10. A call for a control-plane node that returns without error returns exactly the four
  paths [apiserver cert, apiserver key, proxy-client cert, proxy-client key], the canonical
  ones, in that order, whatever the flag and the cached files were (so whether each
  certificate was reused or regenerated); the user client pair's paths are in the list only
  if \<open>localpath\<close> made them coincide with one of the four. For another node the list is
  empty and nothing happens.
\<close>

theorem generateProfileCerts_xfer:
  "(ControlPlane n \<and> generateProfileCerts E cfg n ccs regen w = ((xfer, None), w') \<longrightarrow>
      xfer = [path_Join [Profile E (ClusterName (KubernetesConfig cfg)), ''apiserver.crt''],
              path_Join [Profile E (ClusterName (KubernetesConfig cfg)), ''apiserver.key''],
              path_Join [Profile E (ClusterName (KubernetesConfig cfg)), ''proxy-client.crt''],
              path_Join [Profile E (ClusterName (KubernetesConfig cfg)), ''proxy-client.key'']])
   \<and> (\<not> ControlPlane n \<longrightarrow> generateProfileCerts E cfg n ccs regen w = (([], None), w))"
proof -
  have "xfer = [path_Join [Profile E (ClusterName (KubernetesConfig cfg)), ''apiserver.crt''],
              path_Join [Profile E (ClusterName (KubernetesConfig cfg)), ''apiserver.key''],
              path_Join [Profile E (ClusterName (KubernetesConfig cfg)), ''proxy-client.crt''],
              path_Join [Profile E (ClusterName (KubernetesConfig cfg)), ''proxy-client.key'']]"
    if cp: "ControlPlane n" and run: "generateProfileCerts E cfg n ccs regen w = ((xfer, None), w')"
  proof -
    obtain serviceIP where sip:
      "util_GetServiceClusterIP E (ServiceCIDR (KubernetesConfig cfg)) = Inr serviceIP"
      using cp run by (auto simp: generateProfileCerts_def Let_def split: sum.splits)
    obtain sips names where san:
      "apiServerSANs E (KubernetesConfig cfg) n serviceIP = (sips, names)"
      by (cases "apiServerSANs E (KubernetesConfig cfg) n serviceIP")
    have "leafLoop E cfg regen (profileCertSpecs E (KubernetesConfig cfg) ccs sips names) [] w
            = ((xfer, None), w')"
      using cp run sip san by (simp add: generateProfileCerts_def Let_def)
    from leafLoop_xfer[OF this] show ?thesis
      by (simp add: profileCertSpecs_def Let_def)
  qed
  then show ?thesis
    by (auto simp: generateProfileCerts_def)
qed

theorem generateProfileCerts_xfer_witness:
  "fst (generateProfileCerts E0 cc0 n0 (sharedCACerts E0) False cachedProfile) =
     ([''/home/u/.minikube/profiles/minikube/apiserver.crt'',
       ''/home/u/.minikube/profiles/minikube/apiserver.key'',
       ''/home/u/.minikube/profiles/minikube/proxy-client.crt'',
       ''/home/u/.minikube/profiles/minikube/proxy-client.key''], None)
   \<and> ClientCert E0 ''minikube'' \<notin> set (fst (fst
        (generateProfileCerts E0 cc0 n0 (sharedCACerts E0) False cachedProfile)))
   \<and> ClientKey E0 ''minikube'' \<notin> set (fst (fst
        (generateProfileCerts E0 cc0 n0 (sharedCACerts E0) False cachedProfile)))
   \<and> generateProfileCerts E0 cc0 worker0 (sharedCACerts E0) True cachedProfile
       = (([], None), cachedProfile)"
proof -
  obtain xfer err w' where r:
    "generateProfileCerts E0 cc0 n0 (sharedCACerts E0) False cachedProfile = ((xfer, err), w')"
    by (cases "generateProfileCerts E0 cc0 n0 (sharedCACerts E0) False cachedProfile") auto
  have "snd (fst (generateProfileCerts E0 cc0 n0 (sharedCACerts E0) False cachedProfile)) = None"
    by (rule generateProfileCerts_E0)
  then have ok: "err = None"
    using r by simp
  have cp: "ControlPlane n0" and wk: "\<not> ControlPlane worker0"
    by (simp_all add: n0_def worker0_def)
  have paths:
    "path_Join [Profile E0 (ClusterName (KubernetesConfig cc0)), ''apiserver.crt'']
       = ''/home/u/.minikube/profiles/minikube/apiserver.crt''"
    "path_Join [Profile E0 (ClusterName (KubernetesConfig cc0)), ''apiserver.key'']
       = ''/home/u/.minikube/profiles/minikube/apiserver.key''"
    "path_Join [Profile E0 (ClusterName (KubernetesConfig cc0)), ''proxy-client.crt'']
       = ''/home/u/.minikube/profiles/minikube/proxy-client.crt''"
    "path_Join [Profile E0 (ClusterName (KubernetesConfig cc0)), ''proxy-client.key'']
       = ''/home/u/.minikube/profiles/minikube/proxy-client.key''"
    by code_simp+
  have client: "ClientCert E0 ''minikube'' = ''/home/u/.minikube/profiles/minikube/client.crt''"
    "ClientKey E0 ''minikube'' = ''/home/u/.minikube/profiles/minikube/client.key''"
    by (simp_all add: E0_def)
  show ?thesis
    using generateProfileCerts_xfer[of n0 E0 cc0 "sharedCACerts E0" False cachedProfile xfer w']
      generateProfileCerts_xfer[of worker0 E0 cc0 "sharedCACerts E0" True cachedProfile]
      r ok cp wk paths client
    by simp
qed











subsection \<open>The trust store installer\<close>

lemma runCmd_cmds: "cmds (snd (runCmd E argv w)) = cmds w @ [argv]"
  by (simp add: runCmd_def)

lemma getSubjectHash_cmds:
  "\<exists>cs. cmds (snd (getSubjectHash E p w)) = cmds w @ cs
        \<and> set cs \<subseteq> {[''ls'', ''-la'', p], [''openssl'', ''x509'', ''-hash'', ''-noout'', ''-in'', p],
                      [''cat'', p]}"
proof -
  let ?ls = "[''ls'', ''-la'', p]"
  let ?x = "[''openssl'', ''x509'', ''-hash'', ''-noout'', ''-in'', p]"
  let ?cat = "[''cat'', p]"
  have "cmds (snd (getSubjectHash E p w)) = cmds w @ [?ls]
      \<or> cmds (snd (getSubjectHash E p w)) = cmds w @ [?ls, ?x]
      \<or> cmds (snd (getSubjectHash E p w)) = cmds w @ [?ls, ?x, ?cat]"
    by (simp add: getSubjectHash_def runCmd_def Let_def split_beta split: option.splits)
  then consider (a) "cmds (snd (getSubjectHash E p w)) = cmds w @ [?ls]"
    | (b) "cmds (snd (getSubjectHash E p w)) = cmds w @ [?ls, ?x]"
    | (c) "cmds (snd (getSubjectHash E p w)) = cmds w @ [?ls, ?x, ?cat]"
    by blast
  then show ?thesis
  proof cases
    case a
    then show ?thesis by (intro exI[of _ "[?ls]"]) simp
  next
    case b
    then show ?thesis by (intro exI[of _ "[?ls, ?x]"]) simp
  next
    case c
    then show ?thesis by (intro exI[of _ "[?ls, ?x, ?cat]"]) simp
  qed
qed

lemma symlinkLoop_commands:
  "\<exists>cs. cmds (snd (symlinkLoop E b es w)) = cmds w @ cs
        \<and> (\<forall>c\<in>set cs. \<exists>e\<in>set es. \<exists>h. c \<in> set (entryCommands E e h))"
proof (induction es arbitrary: w)
  case Nil
  then show ?case by simp
next
  case (Cons e es)
  let ?ok = "\<lambda>cs. \<forall>c\<in>set cs. \<exists>e'\<in>set (e # es). \<exists>h. c \<in> set (entryCommands E e' h)"
  let ?w1 = "snd (runCmd E (directLinkCommand E e) w)"
  have d: "cmds ?w1 = cmds w @ [directLinkCommand E e]"
    by (simp add: runCmd_cmds)
  have dOk: "?ok [directLinkCommand E e]"
    by (simp add: entryCommands_def)
  have tail: "\<exists>cs. cmds (snd (symlinkLoop E b es w')) = cmds w' @ cs \<and> ?ok cs" for w'
    using Cons.IH[of w'] by (metis list.set_intros(2))
  show ?case
  proof (cases "snd (fst (runCmd E (directLinkCommand E e) w))")
    case (Some err)
    then have "snd (symlinkLoop E b (e # es) w) = ?w1"
      by (simp add: split_beta)
    then show ?thesis
      using d dOk by (intro exI[of _ "[directLinkCommand E e]"]) simp
  next
    case None
    show ?thesis
    proof (cases b)
      case False
      then have s: "snd (symlinkLoop E b (e # es) w) = snd (symlinkLoop E b es ?w1)"
        using None by (simp add: split_beta)
      obtain cs where "cmds (snd (symlinkLoop E b es ?w1)) = cmds ?w1 @ cs" "?ok cs"
        using tail[of ?w1] by blast
      then show ?thesis
        using s d dOk by (intro exI[of _ "directLinkCommand E e # cs"]) simp
    next
      case True
      let ?g = "getSubjectHash E e ?w1"
      obtain gs where g: "cmds (snd ?g) = cmds ?w1 @ gs"
        and gsub: "set gs \<subseteq> {[''ls'', ''-la'', e],
                      [''openssl'', ''x509'', ''-hash'', ''-noout'', ''-in'', e], [''cat'', e]}"
        using getSubjectHash_cmds[of E e ?w1] by blast
      have gOk: "?ok gs"
        using gsub by (auto simp: entryCommands_def)
      show ?thesis
      proof (cases "snd (fst ?g)")
        case (Some err)
        then have "snd (symlinkLoop E b (e # es) w) = snd ?g"
          using None True by (simp add: split_beta)
        then show ?thesis
          using d g dOk gOk by (intro exI[of _ "directLinkCommand E e # gs"]) simp
      next
        case gNone: None
        let ?h = "fst (fst ?g)"
        let ?w3 = "snd (runCmd E (hashLinkCommand E e ?h) (snd ?g))"
        have l: "cmds ?w3 = cmds (snd ?g) @ [hashLinkCommand E e ?h]"
          by (simp add: runCmd_cmds)
        have lOk: "?ok [hashLinkCommand E e ?h]"
          by (auto simp: entryCommands_def)
        show ?thesis
        proof (cases "snd (fst (runCmd E (hashLinkCommand E e ?h) (snd ?g)))")
          case (Some err)
          then have "snd (symlinkLoop E b (e # es) w) = ?w3"
            using None True gNone by (simp add: split_beta)
          then show ?thesis
            using d g l dOk gOk lOk
            by (intro exI[of _ "directLinkCommand E e # gs @ [hashLinkCommand E e ?h]"]) auto
        next
          case lNone: None
          then have s: "snd (symlinkLoop E b (e # es) w) = snd (symlinkLoop E b es ?w3)"
            using None True gNone by (simp add: split_beta)
          obtain cs where "cmds (snd (symlinkLoop E b es ?w3)) = cmds ?w3 @ cs" "?ok cs"
            using tail[of ?w3] by blast
          then show ?thesis
            using s d g l dOk gOk lOk
            by (intro exI[of _ "directLinkCommand E e # gs @ hashLinkCommand E e ?h # cs"]) auto
        qed
      qed
    qed
  qed
qed

lemma symlinkLoop_plain:
  "\<exists>k\<le>length es. cmds (snd (symlinkLoop E False es w))
                     = cmds w @ map (directLinkCommand E) (take k es)"
proof (induction es arbitrary: w)
  case Nil
  then show ?case by simp
next
  case (Cons e es)
  let ?w1 = "snd (runCmd E (directLinkCommand E e) w)"
  have d: "cmds ?w1 = cmds w @ [directLinkCommand E e]"
    by (simp add: runCmd_cmds)
  show ?case
  proof (cases "snd (fst (runCmd E (directLinkCommand E e) w))")
    case (Some err)
    then have "snd (symlinkLoop E False (e # es) w) = ?w1"
      by (simp add: split_beta)
    then show ?thesis
      using d by (intro exI[of _ 1]) simp
  next
    case None
    then have s: "snd (symlinkLoop E False (e # es) w) = snd (symlinkLoop E False es ?w1)"
      by (simp add: split_beta)
    obtain k where "k \<le> length es"
      "cmds (snd (symlinkLoop E False es ?w1)) = cmds ?w1 @ map (directLinkCommand E) (take k es)"
      using Cons.IH[of ?w1] by blast
    then show ?thesis
      using s d by (intro exI[of _ "Suc k"]) simp
  qed
qed

lemma symlinkLoop_plain_ok:
  assumes "\<forall>i<length es. snd (RunCmd E (cmds w @ map (directLinkCommand E) (take i es))
                                (directLinkCommand E (es ! i))) = None"
  shows "fst (symlinkLoop E False es w) = None
       \<and> cmds (snd (symlinkLoop E False es w)) = cmds w @ map (directLinkCommand E) es"
  using assms
proof (induction es arbitrary: w)
  case Nil
  then show ?case by simp
next
  case (Cons e es)
  let ?w1 = "snd (runCmd E (directLinkCommand E e) w)"
  have d: "cmds ?w1 = cmds w @ [directLinkCommand E e]"
    by (simp add: runCmd_cmds)
  have first: "snd (fst (runCmd E (directLinkCommand E e) w)) = None"
    using Cons.prems[rule_format, of 0] by (simp add: runCmd_def)
  have rest: "\<forall>i<length es. snd (RunCmd E (cmds ?w1 @ map (directLinkCommand E) (take i es))
                                (directLinkCommand E (es ! i))) = None"
  proof (intro allI impI)
    fix i assume "i < length es"
    then show "snd (RunCmd E (cmds ?w1 @ map (directLinkCommand E) (take i es))
                                (directLinkCommand E (es ! i))) = None"
      using Cons.prems[rule_format, of "Suc i"] d by simp
  qed
  have s: "symlinkLoop E False (e # es) w = symlinkLoop E False es ?w1"
    using first by (simp add: split_beta)
  show ?case
    using Cons.IH[OF rest] s d by simp
qed

text \<open>
  C9. The first command \<open>installCertSymlinks\<close> issues is the probe \<open>openssl version\<close>, and
  it is issued once. Every later command belongs to a collected certificate and is its direct
  symlink command, one of the three commands of the subject-hash computation, or its hash
  symlink command; the hash symlink command is \<open>test -L link || ln -fs store link\<close>, which
  leaves the creation of the link to the case that no link exists at the hash path. When the
  probe fails, the later commands are direct symlink commands only, those of the first
  entries in order (the run stops at the first that fails); and if each direct symlink
  command succeeds when its turn comes, every entry's command is issued and the installation
  returns without error.
\<close>

theorem installCertSymlinks_commands:
  "\<exists>rest. cmds (snd (installCertSymlinks E caCerts w)) = cmds w @ [''openssl'', ''version''] # rest
     \<and> [''openssl'', ''version''] \<notin> set rest
     \<and> (\<forall>c\<in>set rest. \<exists>e\<in>set (map snd caCerts). \<exists>h. c \<in> set (entryCommands E e h))
     \<and> (\<forall>e h. hashLinkCommand E e h =
           [''sudo'', ''/bin/bash'', ''-c'',
            ''test -L '' @ path_Join [GuestCertStoreDir E, h @ ''.0''] @ '' || ln -fs ''
              @ path_Join [GuestCertStoreDir E, Base e] @ '' ''
              @ path_Join [GuestCertStoreDir E, h @ ''.0'']])
     \<and> (snd (RunCmd E (cmds w) [''openssl'', ''version'']) \<noteq> None \<longrightarrow>
          (\<exists>k\<le>length caCerts. rest = map (directLinkCommand E) (take k (map snd caCerts)))
          \<and> ((\<forall>i<length caCerts.
                 snd (RunCmd E (cmds w @ [''openssl'', ''version'']
                                 # map (directLinkCommand E) (take i (map snd caCerts)))
                        (directLinkCommand E (map snd caCerts ! i))) = None) \<longrightarrow>
               fst (installCertSymlinks E caCerts w) = None
               \<and> rest = map (directLinkCommand E) (map snd caCerts)))"
proof -
  let ?probe = "[''openssl'', ''version'']"
  let ?es = "map snd caCerts"
  let ?w1 = "snd (runCmd E ?probe w)"
  let ?has = "snd (fst (runCmd E ?probe w)) = None"
  have p: "cmds ?w1 = cmds w @ [?probe]"
    by (simp add: runCmd_cmds)
  have run: "installCertSymlinks E caCerts w = symlinkLoop E ?has ?es ?w1"
    by (simp add: installCertSymlinks_def Let_def split_beta)
  obtain rest where r: "cmds (snd (symlinkLoop E ?has ?es ?w1)) = cmds ?w1 @ rest"
    and rOk: "\<forall>c\<in>set rest. \<exists>e\<in>set ?es. \<exists>h. c \<in> set (entryCommands E e h)"
    using symlinkLoop_commands[of E ?has ?es ?w1] by blast
  have all: "cmds (snd (installCertSymlinks E caCerts w)) = cmds w @ ?probe # rest"
    using run r p by simp
  have once: "?probe \<notin> set rest"
  proof
    assume "?probe \<in> set rest"
    then obtain e h where "?probe \<in> set (entryCommands E e h)"
      using rOk by blast
    then show False
      by (simp add: entryCommands_def directLinkCommand_def hashLinkCommand_def)
  qed
  have guard: "\<forall>e h. hashLinkCommand E e h =
           [''sudo'', ''/bin/bash'', ''-c'',
            ''test -L '' @ path_Join [GuestCertStoreDir E, h @ ''.0''] @ '' || ln -fs ''
              @ path_Join [GuestCertStoreDir E, Base e] @ '' ''
              @ path_Join [GuestCertStoreDir E, h @ ''.0'']]"
    by (simp add: hashLinkCommand_def subjectHashLink_def certStorePath_def)
  have noSSL: "(\<exists>k\<le>length caCerts. rest = map (directLinkCommand E) (take k ?es))
          \<and> ((\<forall>i<length caCerts.
                 snd (RunCmd E (cmds w @ ?probe # map (directLinkCommand E) (take i ?es))
                        (directLinkCommand E (?es ! i))) = None) \<longrightarrow>
               fst (installCertSymlinks E caCerts w) = None
               \<and> rest = map (directLinkCommand E) ?es)"
    if f: "snd (RunCmd E (cmds w) ?probe) \<noteq> None"
  proof -
    have no: "\<not> ?has"
      using f by (simp add: runCmd_def)
    obtain k where "k \<le> length ?es"
      "cmds (snd (symlinkLoop E False ?es ?w1)) = cmds ?w1 @ map (directLinkCommand E) (take k ?es)"
      using symlinkLoop_plain[of ?es E ?w1] by blast
    then have k: "\<exists>k\<le>length caCerts. rest = map (directLinkCommand E) (take k ?es)"
      using r no by (intro exI[of _ k]) simp
    have "fst (installCertSymlinks E caCerts w) = None \<and> rest = map (directLinkCommand E) ?es"
      if g: "\<forall>i<length caCerts.
                 snd (RunCmd E (cmds w @ ?probe # map (directLinkCommand E) (take i ?es))
                        (directLinkCommand E (?es ! i))) = None"
    proof -
      have "\<forall>i<length ?es. snd (RunCmd E (cmds ?w1 @ map (directLinkCommand E) (take i ?es))
                                (directLinkCommand E (?es ! i))) = None"
        using g p by simp
      from symlinkLoop_plain_ok[OF this] show ?thesis
        using run r no by simp
    qed
    then show ?thesis
      using k by blast
  qed
  show ?thesis
    using all once rOk guard noSSL by (intro exI[of _ rest]) blast
qed

theorem installCertSymlinks_commands_witness:
  "snd (RunCmd E_noOpenssl (cmds emptyWorld) [''openssl'', ''version'']) \<noteq> None
   \<and> fst (installCertSymlinks E_noOpenssl caCerts0 emptyWorld) = None
   \<and> cmds (snd (installCertSymlinks E_noOpenssl caCerts0 emptyWorld)) =
       [[''openssl'', ''version''],
        [''sudo'', ''/bin/bash'', ''-c'',
         ''test -s /usr/share/ca-certificates/minikubeCA.pem && ln -fs /usr/share/ca-certificates/minikubeCA.pem /etc/ssl/certs/minikubeCA.pem''],
        [''sudo'', ''/bin/bash'', ''-c'',
         ''test -s /usr/share/ca-certificates/corp.pem && ln -fs /usr/share/ca-certificates/corp.pem /etc/ssl/certs/corp.pem'']]"
proof -
  let ?probe = "[''openssl'', ''version'']"
  have f: "snd (RunCmd E_noOpenssl (cmds emptyWorld) ?probe) \<noteq> None"
    by (simp add: E_noOpenssl_def E0_def noOutput_def)
  have g: "\<forall>i<length caCerts0.
       snd (RunCmd E_noOpenssl
              (cmds emptyWorld @ ?probe
                 # map (directLinkCommand E_noOpenssl) (take i (map snd caCerts0)))
              (directLinkCommand E_noOpenssl (map snd caCerts0 ! i))) = None"
    by (simp add: E_noOpenssl_def E0_def toyRun_def noOutput_def directLinkCommand_def)
  have d: "map (directLinkCommand E_noOpenssl) (map snd caCerts0) =
       [[''sudo'', ''/bin/bash'', ''-c'',
         ''test -s /usr/share/ca-certificates/minikubeCA.pem && ln -fs /usr/share/ca-certificates/minikubeCA.pem /etc/ssl/certs/minikubeCA.pem''],
        [''sudo'', ''/bin/bash'', ''-c'',
         ''test -s /usr/share/ca-certificates/corp.pem && ln -fs /usr/share/ca-certificates/corp.pem /etc/ssl/certs/corp.pem'']]"
    by code_simp
  have e: "cmds emptyWorld = []"
    by (simp add: emptyWorld_def)
  obtain rest where
    all: "cmds (snd (installCertSymlinks E_noOpenssl caCerts0 emptyWorld))
            = cmds emptyWorld @ ?probe # rest"
    and noSSL: "snd (RunCmd E_noOpenssl (cmds emptyWorld) ?probe) \<noteq> None \<longrightarrow>
          (\<exists>k\<le>length caCerts0. rest = map (directLinkCommand E_noOpenssl) (take k (map snd caCerts0)))
          \<and> ((\<forall>i<length caCerts0.
                 snd (RunCmd E_noOpenssl (cmds emptyWorld @ ?probe
                                 # map (directLinkCommand E_noOpenssl) (take i (map snd caCerts0)))
                        (directLinkCommand E_noOpenssl (map snd caCerts0 ! i))) = None) \<longrightarrow>
               fst (installCertSymlinks E_noOpenssl caCerts0 emptyWorld) = None
               \<and> rest = map (directLinkCommand E_noOpenssl) (map snd caCerts0))"
    using installCertSymlinks_commands[of E_noOpenssl caCerts0 emptyWorld] by blast
  have "fst (installCertSymlinks E_noOpenssl caCerts0 emptyWorld) = None
        \<and> rest = map (directLinkCommand E_noOpenssl) (map snd caCerts0)"
    using noSSL f g by blast
  then show ?thesis
    using f all d e by simp
qed

subsection \<open>The trust store collector\<close>

text \<open>
  The decoding loop ends for every decoder that, like \<open>pem.Decode\<close>, returns a rest shorter
  than its input.
\<close>

lemma pemScan_returns:
  assumes "\<And>bs block rest. pemDecode E bs = Some (block, rest) \<Longrightarrow> length rest < length bs"
  shows "\<exists>found. pemScan E fileBytes = Some found"
proof (induction "length fileBytes" arbitrary: fileBytes rule: less_induct)
  case less
  show ?case
  proof (cases "pemDecode E fileBytes")
    case None
    then have "pemScan E fileBytes = Some False"
      by (subst pemScan.simps) simp
    then show ?thesis
      by blast
  next
    case (Some a)
    obtain block rest where a: "a = (block, rest)"
      by (cases a)
    have "length rest < length fileBytes"
      using assms Some a by simp
    from less[OF this] obtain found where "pemScan E rest = Some found"
      by blast
    then have "pemScan E fileBytes = Some (Type block = ''CERTIFICATE'' \<or> found)"
      using Some a by (subst pemScan.simps) simp
    then show ?thesis
      by blast
  qed
qed

lemma toyDecode_shrinks:
  "toyDecode bs = Some (block, rest) \<Longrightarrow> length rest < length bs"
proof (cases bs)
  case Nil
  assume "toyDecode bs = Some (block, rest)"
  then show ?thesis
    using Nil by (simp add: toyDecode_def)
next
  case (Cons c cs)
  assume "toyDecode bs = Some (block, rest)"
  then have "rest = drop 1 (dropWhile (\<lambda>x. x \<noteq> CHR '';'') cs)"
    using Cons by (auto simp: toyDecode_def toyBlock_def split: if_splits)
  moreover have "length (dropWhile (\<lambda>x. x \<noteq> CHR '';'') cs) \<le> length cs"
    by (rule length_dropWhile_le)
  ultimately show ?thesis
    using Cons by simp
qed

theorem pemScan_returns_witness:
  "\<exists>found. pemScan E0 pem32 = Some found"
proof -
  have "\<And>bs block rest. pemDecode E0 bs = Some (block, rest) \<Longrightarrow> length rest < length bs"
    using toyDecode_shrinks by (simp add: E0_def)
  from pemScan_returns[of E0 pem32, OF this] show ?thesis .
qed

text \<open>
  C6 on a concrete host. The collector returns; the 10-byte \<open>tiny.crt\<close> is left out;
  \<open>corp.crt\<close>, 32 bytes with a CERTIFICATE block, goes to \<open>corp.pem\<close> under the guest
  certificate-authority directory; \<open>ca.pem\<close> and \<open>cert.pem\<close> of the scanned directory are
  left out although they hold a certificate; the provisioner's own CA is added. But
  \<open>X.CRT\<close>, whose lowercase extension is \<open>.crt\<close>, goes to \<open>X.CRT.pem\<close>: the extension is
  trimmed in its lowercased form, which is no suffix of the file name, so \<open>.pem\<close> is appended
  to the whole name and the extension is not replaced.
\<close>

theorem collectCACerts_uppercase_extension:
  "map_option
     (\<lambda>(m, e). (m ''/home/u/.minikube/certs/X.CRT'', m ''/home/u/.minikube/certs/corp.crt'',
                 m ''/home/u/.minikube/certs/tiny.crt'', m ''/home/u/.minikube/certs/ca.pem'',
                 m ''/home/u/.minikube/certs/cert.pem'', m ''/home/u/.minikube/ca.crt'', e))
     (collectCACerts E_certs certsWorld)
   = Some (Some ''/usr/share/ca-certificates/X.CRT.pem'',
           Some ''/usr/share/ca-certificates/corp.pem'',
           None, None, None,
           Some ''/usr/share/ca-certificates/minikubeCA.pem'', None)
   \<and> ToLower (Ext ''/home/u/.minikube/certs/X.CRT'') = ''.crt''
   \<and> TrimSuffix (Base ''/home/u/.minikube/certs/X.CRT'') ''.crt'' = ''X.CRT''"
  by code_simp

end
